theory Spec2Isabelle
  imports Main "HOL-Library.Sublist"
begin

section \<open>Values, errors and the platform\<close>

text \<open>
  The program is TypeScript on Node.js. Its values that cross a file or a socket are JSON
  values; \<open>JNull\<close> is the JavaScript \<open>null\<close>, and a \<open>json option\<close> is used where
  a property read may give \<open>undefined\<close> (\<open>None\<close>). Numbers are modelled as integers:
  the ports and process identifiers of this program are integers.
\<close>

datatype json =
    JNull
  | JBool bool
  | JNum int
  | JStr string
  | JArr "json list"
  | JObj "(string \<times> json) list"

text \<open>JavaScript truthiness of a value (\<open>!v\<close> is \<open>\<not> truthy v\<close>); \<open>undefined\<close> is falsy.\<close>

fun truthy :: "json \<Rightarrow> bool" where
  "truthy JNull = False"
| "truthy (JBool b) = b"
| "truthy (JNum n) = (n \<noteq> 0)"
| "truthy (JStr s) = (s \<noteq> [])"
| "truthy (JArr xs) = True"
| "truthy (JObj kvs) = True"

definition truthy_opt :: "json option \<Rightarrow> bool" where
  "truthy_opt v = (case v of None \<Rightarrow> False | Some x \<Rightarrow> truthy x)"

text \<open>A thrown JavaScript error: its \<open>name\<close> and its \<open>message\<close>.\<close>

datatype error = JsError string string

fun message :: "error \<Rightarrow> string" where
  "message (JsError n m) = m"

text \<open>\<open>String(error)\<close>, that is \<open>Error.prototype.toString\<close>.\<close>

fun String_of :: "error \<Rightarrow> string" where
  "String_of (JsError n m) =
     (if m = [] then n else if n = [] then m else n @ '': '' @ m)"

text \<open>
  Reading a property \<open>v.k\<close>: a \<open>TypeError\<close> on \<open>null\<close>, the member of an object, and
  \<open>undefined\<close> on an object without the member and on every other value (none of the
  names this program reads is a built-in property of a number, string, boolean or array).
\<close>

fun get_prop :: "json \<Rightarrow> string \<Rightarrow> error + json option" where
  "get_prop JNull k =
     Inl (JsError ''TypeError'' (''Cannot read properties of null (reading '' @ k @ '')''))"
| "get_prop (JObj kvs) k = Inr (map_of kvs k)"
| "get_prop v k = Inr None"

text \<open>
  What the program takes from Node.js and the operating system, as parameters:
  \<open>JSON.parse\<close> (an error value is the thrown \<open>SyntaxError\<close>),
  \<open>JSON.stringify(v, null, 2)\<close> and \<open>JSON.stringify(v)\<close>,
  \<open>process.kill(pid, 0)\<close> on the value read from \<open>session.pid\<close>,
  \<open>process.pid\<close>, \<open>new Date().toISOString()\<close>, and whether the loopback port can
  be bound by \<open>server.listen\<close>.
\<close>

record platform =
  JSON_parse :: "string \<Rightarrow> error + json"
  JSON_stringify_2 :: "json \<Rightarrow> string"
  JSON_stringify :: "json \<Rightarrow> string"
  process_kill_0 :: "json option \<Rightarrow> error + unit"
  process_pid :: int
  Date_toISOString :: string
  net_listen :: "int \<Rightarrow> error + unit"

section \<open>The session descriptor store (session.ts)\<close>

record SessionInfo =
  port :: int
  appPath :: string
  pid :: int
  startedAt :: string

text \<open>The object a \<open>SessionInfo\<close> is at run time, with its members in declaration order.\<close>

definition session_json :: "SessionInfo \<Rightarrow> json" where
  "session_json s =
     JObj [(''port'', JNum (port s)), (''appPath'', JStr (appPath s)),
           (''pid'', JNum (pid s)), (''startedAt'', JStr (startedAt s))]"

text \<open>
  The module touches two paths only: \<open>SESSION_DIR\<close> (\<open>~/.pw-electron\<close>) and
  \<open>SESSION_FILE\<close> (\<open>session.json\<close> in it). The file system is the state of these
  two: whether the directory exists, and the contents of the file when it exists. The
  calls fail as Node's do on a missing path (\<open>ENOENT\<close>); permission and device faults
  are outside the model.
\<close>

record fs_state =
  session_dir :: bool
  session_file :: "string option"

definition ENOENT :: error where
  "ENOENT = JsError ''Error'' ''ENOENT: no such file or directory''"

definition existsSync_dir :: "fs_state \<Rightarrow> bool" where
  "existsSync_dir fs = session_dir fs"

definition existsSync_file :: "fs_state \<Rightarrow> bool" where
  "existsSync_file fs = (session_file fs \<noteq> None)"

definition mkdirSync :: "fs_state \<Rightarrow> error + fs_state" where
  "mkdirSync fs = Inr (fs\<lparr>session_dir := True\<rparr>)"

definition writeFileSync :: "string \<Rightarrow> fs_state \<Rightarrow> error + fs_state" where
  "writeFileSync data fs =
     (if session_dir fs then Inr (fs\<lparr>session_file := Some data\<rparr>) else Inl ENOENT)"

definition readFileSync :: "fs_state \<Rightarrow> error + string" where
  "readFileSync fs = (case session_file fs of None \<Rightarrow> Inl ENOENT | Some data \<Rightarrow> Inr data)"

definition unlinkSync :: "fs_state \<Rightarrow> error + fs_state" where
  "unlinkSync fs =
     (case session_file fs of None \<Rightarrow> Inl ENOENT
      | Some data \<Rightarrow> Inr (fs\<lparr>session_file := None\<rparr>))"

definition ensureSessionDir :: "fs_state \<Rightarrow> error + fs_state" where
  "ensureSessionDir fs = (if \<not> existsSync_dir fs then mkdirSync fs else Inr fs)"

definition saveSession :: "platform \<Rightarrow> json \<Rightarrow> fs_state \<Rightarrow> error + fs_state" where
  "saveSession P session fs =
     (case ensureSessionDir fs of
        Inl e \<Rightarrow> Inl e
      | Inr fs1 \<Rightarrow> writeFileSync (JSON_stringify_2 P session) fs1)"

text \<open>
  \<open>loadSession\<close>: the body of the \<open>try\<close> either returns the parsed value, falls
  through (no file), or throws; the \<open>catch\<close> swallows the error, and both of the latter
  reach \<open>return null\<close>.
\<close>

definition loadSession_try :: "platform \<Rightarrow> fs_state \<Rightarrow> error + json option" where
  "loadSession_try P fs =
     (if existsSync_file fs then
        (case readFileSync fs of
           Inl e \<Rightarrow> Inl e
         | Inr data \<Rightarrow>
             (case JSON_parse P data of Inl e \<Rightarrow> Inl e | Inr v \<Rightarrow> Inr (Some v)))
      else Inr None)"

definition loadSession :: "platform \<Rightarrow> fs_state \<Rightarrow> error + json" where
  "loadSession P fs =
     (case loadSession_try P fs of
        Inr (Some v) \<Rightarrow> Inr v
      | Inr None \<Rightarrow> Inr JNull
      | Inl e \<Rightarrow> Inr JNull)"

text \<open>\<open>clearSession\<close>: the \<open>catch\<close> ignores whatever the removal throws.\<close>

definition clearSession_try :: "fs_state \<Rightarrow> error + fs_state" where
  "clearSession_try fs = (if existsSync_file fs then unlinkSync fs else Inr fs)"

definition clearSession :: "fs_state \<Rightarrow> error + fs_state" where
  "clearSession fs = (case clearSession_try fs of Inl e \<Rightarrow> Inr fs | Inr fs' \<Rightarrow> Inr fs')"

definition isSessionAlive :: "platform \<Rightarrow> json \<Rightarrow> bool" where
  "isSessionAlive P session =
     (case get_prop session ''pid'' of
        Inl e \<Rightarrow> False
      | Inr p \<Rightarrow> (case process_kill_0 P p of Inl e \<Rightarrow> False | Inr u \<Rightarrow> True))"

definition getDefaultPort :: int where
  "getDefaultPort = 9847"

section \<open>The automation driver\<close>

text \<open>
  Playwright is outside the program. Its handles are opaque, and each of its calls either
  returns or throws, as the driver decides: the driver is a parameter. What it answers may
  change as the session goes on, so every call is given the effects of the server so far.
  \<open>launchElectron\<close> stands for the launcher with the binary it finds,
  \<open>run_script\<close> for building the \<open>AsyncFunction\<close> from the script text and calling
  it with \<open>state.app\<close> and \<open>state.window\<close> (\<open>None\<close> is the result
  \<open>undefined\<close>).
\<close>

datatype ElectronApplication = ElectronApplication nat

datatype Page = Page nat

record LaunchOptions =
  executablePath :: string
  args :: "string list option"
  timeout :: "int option"

datatype app_query = GetName | GetVersion | GetLocale | GetAppPath

datatype effect =
    Drv_launch LaunchOptions
  | Drv_firstWindow ElectronApplication
  | Drv_waitForLoadState Page
  | Drv_evaluate ElectronApplication app_query
  | Drv_close ElectronApplication
  | Drv_script json
  | Drv_screenshot Page json
  | SendJson nat json
  | SaveSession json
  | ClearSession
  | Listen int
  | ServerClose
  | ProcessExit int

type_synonym history = "effect list"

record driver =
  launchElectron :: "history \<Rightarrow> LaunchOptions \<Rightarrow> error + ElectronApplication"
  firstWindow :: "history \<Rightarrow> ElectronApplication \<Rightarrow> error + Page"
  waitForLoadState :: "history \<Rightarrow> Page \<Rightarrow> error + unit"
  evaluate :: "history \<Rightarrow> ElectronApplication \<Rightarrow> app_query \<Rightarrow> error + string"
  app_close :: "history \<Rightarrow> ElectronApplication \<Rightarrow> error + unit"
  run_script ::
    "history \<Rightarrow> json \<Rightarrow> ElectronApplication option \<Rightarrow> Page option \<Rightarrow> error + json option"
  screenshot :: "history \<Rightarrow> Page \<Rightarrow> json \<Rightarrow> error + unit"

section \<open>The control server (server.ts)\<close>

text \<open>
  The effects are what the server does to the world outside its own variables, in the
  order it does it: the calls of the driver, the responses, the store, the socket, the exit.
\<close>

fun is_driver_call :: "effect \<Rightarrow> bool" where
  "is_driver_call (SendJson status body) = False"
| "is_driver_call (SaveSession s) = False"
| "is_driver_call ClearSession = False"
| "is_driver_call (Listen p) = False"
| "is_driver_call ServerClose = False"
| "is_driver_call (ProcessExit c) = False"
| "is_driver_call e = True"

record ServerState =
  app :: "ElectronApplication option"
  window :: "Page option"
  appPath :: string

text \<open>
  The server process: the module variable \<open>state\<close>, the descriptor store, whether the
  HTTP server accepts connections, whether the response of the request being handled has
  been written, and the effects so far.
\<close>

record world =
  state :: ServerState
  fs :: fs_state
  listening :: bool
  headersSent :: bool
  trace :: "effect list"

text \<open>
  A piece of the program ends in one of three ways: it returns, it throws, or it has
  called \<open>process.exit\<close>, after which nothing of the program runs.
\<close>

datatype 'a outcome = Return 'a | Throw error | Exit int

type_synonym 'a io = "world \<Rightarrow> 'a outcome \<times> world"

definition ret :: "'a \<Rightarrow> 'a io" where
  "ret x = (\<lambda>w. (Return x, w))"

definition throw :: "error \<Rightarrow> 'a io" where
  "throw e = (\<lambda>w. (Throw e, w))"

definition bind_io :: "'a io \<Rightarrow> ('a \<Rightarrow> 'b io) \<Rightarrow> 'b io" where
  "bind_io m f =
     (\<lambda>w. case m w of
            (Return x, w') \<Rightarrow> f x w'
          | (Throw e, w') \<Rightarrow> (Throw e, w')
          | (Exit c, w') \<Rightarrow> (Exit c, w'))"

definition try_catch :: "'a io \<Rightarrow> (error \<Rightarrow> 'a io) \<Rightarrow> 'a io" where
  "try_catch m h =
     (\<lambda>w. case m w of
            (Return x, w') \<Rightarrow> (Return x, w')
          | (Throw e, w') \<Rightarrow> h e w'
          | (Exit c, w') \<Rightarrow> (Exit c, w'))"

definition emit :: "effect \<Rightarrow> unit io" where
  "emit e = (\<lambda>w. (Return (), w\<lparr>trace := trace w @ [e]\<rparr>))"

text \<open>
  An awaited driver call: the call is made, and the driver, given the effects before the
  call, returns or throws.
\<close>

definition await :: "effect \<Rightarrow> (history \<Rightarrow> error + 'a) \<Rightarrow> 'a io" where
  "await call answer =
     (\<lambda>w. case answer (trace w) of
            Inl e \<Rightarrow> (Throw e, w\<lparr>trace := trace w @ [call]\<rparr>)
          | Inr x \<Rightarrow> (Return x, w\<lparr>trace := trace w @ [call]\<rparr>))"

definition process_exit :: "int \<Rightarrow> 'a io" where
  "process_exit c = (\<lambda>w. (Exit c, w\<lparr>trace := trace w @ [ProcessExit c]\<rparr>))"

definition ERR_HTTP_HEADERS_SENT :: error where
  "ERR_HTTP_HEADERS_SENT =
     JsError ''Error'' ''Cannot write headers after they are sent to the client''"

text \<open>
  \<open>sendJson\<close>: \<open>res.writeHead\<close> throws on a response that has been written
  already; otherwise the status and the body go out.
\<close>

definition sendJson :: "nat \<Rightarrow> json \<Rightarrow> unit io" where
  "sendJson status data =
     (\<lambda>w. if headersSent w then (Throw ERR_HTTP_HEADERS_SENT, w)
          else (Return (), w\<lparr>headersSent := True, trace := trace w @ [SendJson status data]\<rparr>))"

record request =
  req_method :: string
  url :: string
  body :: string

text \<open>\<open>parseBody\<close>: \<open>body ? JSON.parse(body) : {}\<close> on the text received.\<close>

definition parseBody :: "platform \<Rightarrow> request \<Rightarrow> json io" where
  "parseBody P req =
     (if body req \<noteq> [] then
        (case JSON_parse P (body req) of Inl e \<Rightarrow> throw e | Inr v \<Rightarrow> ret v)
      else ret (JObj []))"

text \<open>
  \<open>getAppInfo\<close> (electron-launcher.ts): four \<open>evaluate\<close> calls under
  \<open>Promise.all\<close>. All four are made; the result is the four answers, or the error of
  one that failed (the first in the array's order here).
\<close>

record AppInfo =
  name :: string
  version :: string
  app_locale :: string
  path :: string

definition query :: "driver \<Rightarrow> ElectronApplication \<Rightarrow> app_query \<Rightarrow> (error + string) io" where
  "query D a q =
     (\<lambda>w. (Return (evaluate D (trace w) a q), w\<lparr>trace := trace w @ [Drv_evaluate a q]\<rparr>))"

definition getAppInfo :: "driver \<Rightarrow> ElectronApplication \<Rightarrow> AppInfo io" where
  "getAppInfo D a =
     bind_io (query D a GetName) (\<lambda>rn.
     bind_io (query D a GetVersion) (\<lambda>rv.
     bind_io (query D a GetLocale) (\<lambda>rl.
     bind_io (query D a GetAppPath) (\<lambda>rp.
       (case rn of
          Inl e \<Rightarrow> throw e
        | Inr n \<Rightarrow>
       (case rv of
          Inl e \<Rightarrow> throw e
        | Inr v \<Rightarrow>
       (case rl of
          Inl e \<Rightarrow> throw e
        | Inr l \<Rightarrow>
       (case rp of
          Inl e \<Rightarrow> throw e
        | Inr p \<Rightarrow> ret \<lparr>name = n, version = v, app_locale = l, path = p\<rparr>))))))))"

text \<open>
  An object literal: a later member of the same name replaces the value of the earlier
  one, at the earlier one's place; \<open>...info\<close> spreads the members of \<open>info\<close>.
\<close>

fun set_member :: "string \<Rightarrow> json \<Rightarrow> (string \<times> json) list \<Rightarrow> (string \<times> json) list" where
  "set_member k v [] = [(k, v)]"
| "set_member k v ((k', v') # kvs) =
     (if k = k' then (k, v) # kvs else (k', v') # set_member k v kvs)"

definition object_literal :: "(string \<times> json) list \<Rightarrow> json" where
  "object_literal kvs = JObj (foldl (\<lambda>acc kv. set_member (fst kv) (snd kv) acc) [] kvs)"

definition info_members :: "AppInfo \<Rightarrow> (string \<times> json) list" where
  "info_members i =
     [(''name'', JStr (name i)), (''version'', JStr (version i)),
      (''locale'', JStr (app_locale i)), (''path'', JStr (path i))]"

definition error_body :: "string \<Rightarrow> json" where
  "error_body msg = object_literal [(''error'', JStr msg)]"

definition handleStatus :: "driver \<Rightarrow> unit io" where
  "handleStatus D =
     (\<lambda>w. case app (state w) of
            None \<Rightarrow> sendJson 500 (error_body ''No app running'') w
          | Some a \<Rightarrow>
              try_catch
                (bind_io (getAppInfo D a) (\<lambda>info w'.
                   sendJson 200
                     (object_literal
                        ([(''status'', JStr ''running''), (''appPath'', JStr (appPath (state w')))]
                         @ info_members info)) w'))
                (\<lambda>e. sendJson 500 (error_body (String_of e))) w)"

text \<open>
  \<open>handleEval\<close>. A result \<open>undefined\<close> leaves no \<open>result\<close> member in the body
  that \<open>JSON.stringify\<close> writes.
\<close>

definition handleEval :: "platform \<Rightarrow> driver \<Rightarrow> request \<Rightarrow> unit io" where
  "handleEval P D req =
     (\<lambda>w. if app (state w) = None \<or> window (state w) = None then
            sendJson 500 (error_body ''No app running'') w
          else
            try_catch
              (bind_io (parseBody P req) (\<lambda>b.
                 (case get_prop b ''script'' of
                    Inl e \<Rightarrow> throw e
                  | Inr None \<Rightarrow> sendJson 400 (error_body ''Missing script parameter'')
                  | Inr (Some script) \<Rightarrow>
                      if \<not> truthy script then
                        sendJson 400 (error_body ''Missing script parameter'')
                      else
                        (\<lambda>w'. bind_io
                                (await (Drv_script script)
                                   (\<lambda>h. run_script D h script (app (state w')) (window (state w'))))
                                (\<lambda>result.
                                   sendJson 200
                                     (object_literal
                                        ((''success'', JBool True) #
                                         (case result of None \<Rightarrow> [] | Some r \<Rightarrow> [(''result'', r)]))))
                                w'))))
              (\<lambda>e. sendJson 500 (error_body (String_of e))) w)"

definition handleScreenshot :: "platform \<Rightarrow> driver \<Rightarrow> request \<Rightarrow> unit io" where
  "handleScreenshot P D req =
     (\<lambda>w. if window (state w) = None then
            sendJson 500 (error_body ''No app running'') w
          else
            try_catch
              (bind_io (parseBody P req) (\<lambda>b.
                 (case get_prop b ''output'' of
                    Inl e \<Rightarrow> throw e
                  | Inr None \<Rightarrow> sendJson 400 (error_body ''Missing output parameter'')
                  | Inr (Some outputPath) \<Rightarrow>
                      if \<not> truthy outputPath then
                        sendJson 400 (error_body ''Missing output parameter'')
                      else
                        (\<lambda>w'. case window (state w') of
                                None \<Rightarrow>
                                  throw (JsError ''TypeError''
                                    ''Cannot read properties of null (reading screenshot)'') w'
                              | Some p \<Rightarrow>
                                  bind_io
                                    (await (Drv_screenshot p outputPath)
                                       (\<lambda>h. screenshot D h p outputPath))
                                    (\<lambda>u. sendJson 200
                                       (object_literal
                                          [(''success'', JBool True), (''path'', outputPath)]))
                                    w'))))
              (\<lambda>e. sendJson 500 (error_body (String_of e))) w)"

text \<open>
  The steps that close a session. \<open>clearSession\<close> and \<open>server.close()\<close> run on the
  world; \<open>close_owned\<close> is \<open>if (state.app) await state.app.close()\<close>; \<open>teardown\<close>
  is the three statements every closing path ends with.
\<close>

definition clearSession_io :: "unit io" where
  "clearSession_io =
     (\<lambda>w. case clearSession (fs w) of
            Inl e \<Rightarrow> (Throw e, w)
          | Inr fs' \<Rightarrow> (Return (), w\<lparr>fs := fs', trace := trace w @ [ClearSession]\<rparr>))"

definition server_close :: "unit io" where
  "server_close = (\<lambda>w. (Return (), w\<lparr>listening := False, trace := trace w @ [ServerClose]\<rparr>))"

definition close_owned :: "driver \<Rightarrow> unit io" where
  "close_owned D =
     (\<lambda>w. case app (state w) of
            None \<Rightarrow> (Return (), w)
          | Some a \<Rightarrow> await (Drv_close a) (\<lambda>h. app_close D h a) w)"

definition teardown :: "unit io" where
  "teardown = bind_io clearSession_io (\<lambda>u. bind_io server_close (\<lambda>u. process_exit 0))"

definition closing_body :: json where
  "closing_body = object_literal [(''success'', JBool True), (''message'', JStr ''Closing app'')]"

definition handleClose :: "driver \<Rightarrow> unit io" where
  "handleClose D =
     bind_io (sendJson 200 closing_body) (\<lambda>u.
     bind_io (close_owned D) (\<lambda>u.
     teardown))"

text \<open>The callback of \<open>http.createServer\<close>, on a fresh response object.\<close>

definition handleRequest :: "platform \<Rightarrow> driver \<Rightarrow> request \<Rightarrow> unit io" where
  "handleRequest P D req =
     (\<lambda>w. let url' = (if url req \<noteq> [] then url req else ''/'') in
          try_catch
            (if req_method req = ''GET'' \<and> url' = ''/status'' then handleStatus D
             else if req_method req = ''POST'' \<and> url' = ''/eval'' then handleEval P D req
             else if req_method req = ''POST'' \<and> url' = ''/screenshot'' then handleScreenshot P D req
             else if req_method req = ''POST'' \<and> url' = ''/close'' then handleClose D
             else sendJson 404 (error_body ''Not found''))
            (\<lambda>e. sendJson 500 (error_body (String_of e)))
            (w\<lparr>headersSent := False\<rparr>))"

text \<open>
  \<open>startServer\<close>. A falsy \<open>options.port\<close> (absent, zero, or the \<open>NaN\<close> that
  \<open>parseInt\<close> gives; \<open>None\<close> stands for the first and the last) gives the default
  port. The launch phase is the awaited calls up to \<open>getAppInfo\<close>; then
  \<open>server.listen\<close> binds the port, and once it is bound its callback saves the
  descriptor. A port that cannot be bound is an \<open>error\<close> event nobody listens to, which
  Node throws.
\<close>

record options =
  appPath :: string
  args :: "string list option"
  timeout :: "int option"
  port :: "int option"

definition effective_port :: "options \<Rightarrow> int" where
  "effective_port opts =
     (case options.port opts of
        None \<Rightarrow> getDefaultPort
      | Some p \<Rightarrow> if p \<noteq> 0 then p else getDefaultPort)"

definition launch_options :: "options \<Rightarrow> LaunchOptions" where
  "launch_options opts =
     \<lparr>executablePath = options.appPath opts, LaunchOptions.args = options.args opts,
      LaunchOptions.timeout = options.timeout opts\<rparr>"

definition set_app :: "ElectronApplication \<Rightarrow> unit io" where
  "set_app a = (\<lambda>w. (Return (), w\<lparr>state := (state w)\<lparr>app := Some a\<rparr>\<rparr>))"

definition set_window :: "Page \<Rightarrow> unit io" where
  "set_window p = (\<lambda>w. (Return (), w\<lparr>state := (state w)\<lparr>window := Some p\<rparr>\<rparr>))"

definition set_appPath :: "string \<Rightarrow> unit io" where
  "set_appPath s = (\<lambda>w. (Return (), w\<lparr>state := (state w)\<lparr>ServerState.appPath := s\<rparr>\<rparr>))"

definition startServer_launch :: "driver \<Rightarrow> options \<Rightarrow> unit io" where
  "startServer_launch D opts =
     bind_io (await (Drv_launch (launch_options opts))
                (\<lambda>h. launchElectron D h (launch_options opts))) (\<lambda>a.
     bind_io (set_app a) (\<lambda>u.
     bind_io (set_appPath (options.appPath opts)) (\<lambda>u.
     bind_io (await (Drv_firstWindow a) (\<lambda>h. firstWindow D h a)) (\<lambda>p.
     bind_io (set_window p) (\<lambda>u.
     bind_io (await (Drv_waitForLoadState p) (\<lambda>h. waitForLoadState D h p)) (\<lambda>u.
     bind_io (getAppInfo D a) (\<lambda>info.
     ret ())))))))"

definition new_session :: "platform \<Rightarrow> options \<Rightarrow> SessionInfo" where
  "new_session P opts =
     \<lparr>SessionInfo.port = effective_port opts, SessionInfo.appPath = options.appPath opts,
      pid = process_pid P, startedAt = Date_toISOString P\<rparr>"

definition saveSession_io :: "platform \<Rightarrow> json \<Rightarrow> unit io" where
  "saveSession_io P s =
     (\<lambda>w. case saveSession P s (fs w) of
            Inl e \<Rightarrow> (Throw e, w)
          | Inr fs' \<Rightarrow> (Return (), w\<lparr>fs := fs', trace := trace w @ [SaveSession s]\<rparr>))"

definition server_listen :: "platform \<Rightarrow> options \<Rightarrow> unit io" where
  "server_listen P opts =
     (case net_listen P (effective_port opts) of
        Inl e \<Rightarrow> throw e
      | Inr u \<Rightarrow>
          bind_io (emit (Listen (effective_port opts))) (\<lambda>u.
          bind_io (\<lambda>w. (Return (), w\<lparr>listening := True\<rparr>)) (\<lambda>u.
          saveSession_io P (session_json (new_session P opts)))))"

definition startServer :: "platform \<Rightarrow> driver \<Rightarrow> options \<Rightarrow> unit io" where
  "startServer P D opts = bind_io (startServer_launch D opts) (\<lambda>u. server_listen P opts)"

text \<open>
  The handlers \<open>startServer\<close> registers: \<open>cleanup\<close> for \<open>SIGINT\<close> and
  \<open>SIGTERM\<close>, and the listener of the application's \<open>close\<close> event.
\<close>

definition cleanup :: "driver \<Rightarrow> unit io" where
  "cleanup D = bind_io (close_owned D) (\<lambda>u. teardown)"

definition on_app_close :: "unit io" where
  "on_app_close = teardown"

text \<open>
  The action of the \<open>open\<close> command (cli.ts): it refuses to start beside a live
  session, wants a path, and exits with code 1 when \<open>startServer\<close> throws.
  \<open>path_given\<close> is whether \<open>options.path\<close> is truthy; \<open>opts\<close> is the object the
  action builds for \<open>startServer\<close>.
\<close>

definition open_action :: "platform \<Rightarrow> driver \<Rightarrow> bool \<Rightarrow> options \<Rightarrow> unit io" where
  "open_action P D path_given opts =
     (\<lambda>w. case loadSession P (fs w) of
            Inl e \<Rightarrow> (Throw e, w)
          | Inr existingSession \<Rightarrow>
              if truthy existingSession \<and> isSessionAlive P existingSession then process_exit 1 w
              else if \<not> path_given then process_exit 1 w
              else try_catch (startServer P D opts) (\<lambda>e. process_exit 1) w)"

definition initial_state :: ServerState where
  "initial_state = \<lparr>app = None, window = None, appPath = ''''\<rparr>"

definition initial_world :: "fs_state \<Rightarrow> world" where
  "initial_world f =
     \<lparr>state = initial_state, fs = f, listening = False, headersSent = False, trace = []\<rparr>"

section \<open>Closing under several triggers\<close>

text \<open>
  Node runs one handler at a time and switches between them only where one awaits. Both
  \<open>handleClose\<close> and \<open>cleanup\<close> await once, on \<open>state.app.close()\<close>; the
  statements after it are \<open>teardown\<close>. A closing routine is therefore two steps: up to
  the call of the driver, where it is suspended, and from the settled call to the exit.
  The triggers are a \<open>POST /close\<close> request, a termination signal, the application's
  \<open>close\<close> event, and the settling of the oldest pending \<open>close()\<close> call. Once
  \<open>process.exit\<close> has run, no trigger has any effect. A rejected \<open>close()\<close> ends its
  routine with an error nobody handles: the error itself in \<open>cleanup\<close>, and in
  \<open>handleClose\<close> the error of the second \<open>sendJson\<close>, which the \<open>catch\<close> of
  the request callback attempts on the response already written.
\<close>

datatype trigger = CloseRequest | TermSignal | AppClosed | CloseSettled

datatype origin = FromRequest | FromSignal

record process =
  pw :: world
  suspended :: "(origin \<times> history) list"
  exited :: "int option"
  unhandled :: "error list"

definition finish :: "process \<Rightarrow> world \<Rightarrow> process" where
  "finish s w =
     (case teardown w of
        (Exit c, w') \<Rightarrow> s\<lparr>pw := w', exited := Some c\<rparr>
      | (r, w') \<Rightarrow> s\<lparr>pw := w'\<rparr>)"

definition begin_close :: "origin \<Rightarrow> process \<Rightarrow> world \<Rightarrow> process" where
  "begin_close k s w =
     (case app (state w) of
        None \<Rightarrow> finish s w
      | Some a \<Rightarrow>
          s\<lparr>pw := w\<lparr>trace := trace w @ [Drv_close a]\<rparr>,
            suspended := suspended s @ [(k, trace w)]\<rparr>)"

definition settle :: "driver \<Rightarrow> process \<Rightarrow> process" where
  "settle D s =
     (case suspended s of
        [] \<Rightarrow> s
      | (k, h) # ks \<Rightarrow>
          (case app (state (pw s)) of
             None \<Rightarrow> finish (s\<lparr>suspended := ks\<rparr>) (pw s)
           | Some a \<Rightarrow>
               (case app_close D h a of
                  Inl e \<Rightarrow>
                    s\<lparr>suspended := ks,
                      unhandled := unhandled s @
                        [case k of FromRequest \<Rightarrow> ERR_HTTP_HEADERS_SENT | FromSignal \<Rightarrow> e]\<rparr>
                | Inr u \<Rightarrow> finish (s\<lparr>suspended := ks\<rparr>) (pw s))))"

definition fire :: "driver \<Rightarrow> trigger \<Rightarrow> process \<Rightarrow> process" where
  "fire D t s =
     (if exited s \<noteq> None then s
      else
        (case t of
           CloseRequest \<Rightarrow>
             (if listening (pw s) then
                (case sendJson 200 closing_body ((pw s)\<lparr>headersSent := False\<rparr>) of
                   (Return u, w) \<Rightarrow> begin_close FromRequest s w
                 | (r, w) \<Rightarrow> s\<lparr>pw := w\<rparr>)
              else s)
         | TermSignal \<Rightarrow> begin_close FromSignal s (pw s)
         | AppClosed \<Rightarrow> finish s (pw s)
         | CloseSettled \<Rightarrow> settle D s))"

definition run_triggers :: "driver \<Rightarrow> trigger list \<Rightarrow> process \<Rightarrow> process" where
  "run_triggers D ts s = foldl (\<lambda>s t. fire D t s) s ts"

definition serving :: "world \<Rightarrow> process" where
  "serving w = \<lparr>pw = w, suspended = [], exited = None, unhandled = []\<rparr>"




section \<open>The control client (client.ts)\<close>

record ClientResponse =
  success :: bool
  data :: "json option"
  error :: "json option"

text \<open>
  What \<open>http.request\<close> is asked for. The network is a parameter: a call fails to
  connect, or gives a status and a response text.
\<close>

record http_call =
  call_port :: "json option"
  call_method :: string
  call_path :: string
  call_data :: "string option"

type_synonym network = "http_call \<Rightarrow> error + nat \<times> string"

definition invalid_response :: ClientResponse where
  "invalid_response = \<lparr>success = False, data = None, error = Some (JStr ''Invalid response'')\<rparr>"

definition on_response :: "platform \<Rightarrow> nat \<Rightarrow> string \<Rightarrow> ClientResponse" where
  "on_response P status responseBody =
     (case JSON_parse P responseBody of
        Inl e \<Rightarrow> invalid_response
      | Inr parsed \<Rightarrow>
          if status = 200 then \<lparr>success = True, data = Some parsed, error = None\<rparr>
          else
            (case get_prop parsed ''error'' of
               Inl e \<Rightarrow> invalid_response
             | Inr None \<Rightarrow> \<lparr>success = False, data = None, error = Some (JStr ''Request failed'')\<rparr>
             | Inr (Some err) \<Rightarrow>
                 \<lparr>success = False, data = None,
                  error = Some (if truthy err then err else JStr ''Request failed'')\<rparr>))"

text \<open>
  \<open>request\<close> gives the response together with the calls made on the network. It
  never rejects once the call is made; reading \<open>session.port\<close> comes first.
\<close>

definition request ::
  "platform \<Rightarrow> network \<Rightarrow> json \<Rightarrow> string \<Rightarrow> string \<Rightarrow> json option
   \<Rightarrow> (error + ClientResponse) \<times> http_call list" where
  "request P net session meth pth body_opt =
     (case get_prop session ''port'' of
        Inl e \<Rightarrow> (Inl e, [])
      | Inr p \<Rightarrow>
          (let c = \<lparr>call_port = p, call_method = meth, call_path = pth,
                    call_data = map_option (JSON_stringify P) body_opt\<rparr>
           in (Inr (case net c of
                      Inl e \<Rightarrow>
                        \<lparr>success = False, data = None,
                         error = Some (JStr (''Connection failed: '' @ message e))\<rparr>
                    | Inr (status, responseBody) \<Rightarrow> on_response P status responseBody),
               [c])))"

definition no_session_message :: string where
  "no_session_message =
     ''No active session found. Start one with:'' @ [CHR 0x0A] @
     ''  pw-electron open -p /path/to/electron/app''"

definition not_alive_message :: string where
  "not_alive_message =
     ''Session exists but the process is not running. Start a new session with:'' @ [CHR 0x0A] @
     ''  pw-electron open -p /path/to/electron/app''"

definition getActiveSession :: "platform \<Rightarrow> fs_state \<Rightarrow> error + json" where
  "getActiveSession P f =
     (case loadSession P f of
        Inl e \<Rightarrow> Inl e
      | Inr session \<Rightarrow>
          if \<not> truthy session then Inl (JsError ''Error'' no_session_message)
          else if \<not> isSessionAlive P session then Inl (JsError ''Error'' not_alive_message)
          else Inr session)"

definition getStatus ::
  "platform \<Rightarrow> network \<Rightarrow> fs_state \<Rightarrow> (error + ClientResponse) \<times> http_call list" where
  "getStatus P net f =
     (case getActiveSession P f of
        Inl e \<Rightarrow> (Inl e, [])
      | Inr session \<Rightarrow> request P net session ''GET'' ''/status'' None)"

definition evalScript ::
  "platform \<Rightarrow> network \<Rightarrow> string \<Rightarrow> fs_state \<Rightarrow> (error + ClientResponse) \<times> http_call list" where
  "evalScript P net script f =
     (case getActiveSession P f of
        Inl e \<Rightarrow> (Inl e, [])
      | Inr session \<Rightarrow>
          request P net session ''POST'' ''/eval'' (Some (object_literal [(''script'', JStr script)])))"

definition takeScreenshot ::
  "platform \<Rightarrow> network \<Rightarrow> string \<Rightarrow> fs_state \<Rightarrow> (error + ClientResponse) \<times> http_call list" where
  "takeScreenshot P net output f =
     (case getActiveSession P f of
        Inl e \<Rightarrow> (Inl e, [])
      | Inr session \<Rightarrow>
          request P net session ''POST'' ''/screenshot''
            (Some (object_literal [(''output'', JStr output)])))"

definition closeApp ::
  "platform \<Rightarrow> network \<Rightarrow> fs_state \<Rightarrow> (error + ClientResponse) \<times> http_call list" where
  "closeApp P net f =
     (case getActiveSession P f of
        Inl e \<Rightarrow> (Inl e, [])
      | Inr session \<Rightarrow> request P net session ''POST'' ''/close'' None)"

text \<open>The four commands of the client, as one function.\<close>

datatype command = Status | Eval string | Screenshot string | Close

fun run_command ::
  "platform \<Rightarrow> network \<Rightarrow> command \<Rightarrow> fs_state \<Rightarrow> (error + ClientResponse) \<times> http_call list" where
  "run_command P net Status f = getStatus P net f"
| "run_command P net (Eval script) f = evalScript P net script f"
| "run_command P net (Screenshot output) f = takeScreenshot P net output f"
| "run_command P net Close f = closeApp P net f"

section \<open>A reference platform\<close>

text \<open>
  A concrete \<open>JSON.stringify(v, null, 2)\<close> and \<open>JSON.parse\<close> for the values of this
  model (integers for numbers; in strings the escapes of the quote, the backslash, the
  slash and the line feed), with which the functions of the program are run on concrete
  files. The results about the program hold for every platform; this one instantiates
  them.
\<close>

definition is_ws :: "char \<Rightarrow> bool" where
  "is_ws c = (c = CHR '' '' \<or> c = CHR 0x0A \<or> c = CHR 0x0D \<or> c = CHR 0x09)"

definition skip_ws :: "string \<Rightarrow> string" where
  "skip_ws s = dropWhile is_ws s"

definition digit_chars :: string where
  "digit_chars = ''0123456789''"

definition is_digit :: "char \<Rightarrow> bool" where
  "is_digit c = (c \<in> set digit_chars)"

text \<open>The value of a digit is its position among the digits.\<close>

definition digit_val :: "char \<Rightarrow> nat" where
  "digit_val c = length (takeWhile (\<lambda>d. d \<noteq> c) digit_chars)"

definition read_nat :: "string \<Rightarrow> nat" where
  "read_nat ds = foldl (\<lambda>n c. 10 * n + digit_val c) 0 ds"

fun show_nat :: "nat \<Rightarrow> string" where
  "show_nat n = (if n < 10 then [digit_chars ! n] else show_nat (n div 10) @ [digit_chars ! (n mod 10)])"

declare show_nat.simps [simp del]

definition show_int :: "int \<Rightarrow> string" where
  "show_int i = (if i < 0 then CHR ''-'' # show_nat (nat (- i)) else show_nat (nat i))"

fun quote_chars :: "string \<Rightarrow> string" where
  "quote_chars [] = []"
| "quote_chars (c # cs) =
     (if c = CHR 0x22 \<or> c = CHR 0x5C then CHR 0x5C # c # quote_chars cs
      else if c = CHR 0x0A then CHR 0x5C # CHR ''n'' # quote_chars cs
      else c # quote_chars cs)"

definition show_string :: "string \<Rightarrow> string" where
  "show_string s = CHR 0x22 # quote_chars s @ [CHR 0x22]"

fun sep_by :: "string \<Rightarrow> string list \<Rightarrow> string" where
  "sep_by sep [] = []"
| "sep_by sep [x] = x"
| "sep_by sep (x # y # ys) = x @ sep @ sep_by sep (y # ys)"

fun stringify_ind :: "string \<Rightarrow> json \<Rightarrow> string" where
  "stringify_ind ind JNull = ''null''"
| "stringify_ind ind (JBool b) = (if b then ''true'' else ''false'')"
| "stringify_ind ind (JNum n) = show_int n"
| "stringify_ind ind (JStr s) = show_string s"
| "stringify_ind ind (JArr xs) =
     (if xs = [] then ''[]''
      else ''['' @ [CHR 0x0A] @ sep_by ('','' @ [CHR 0x0A])
             (map (\<lambda>x. (ind @ ''  '') @ stringify_ind (ind @ ''  '') x) xs)
           @ [CHR 0x0A] @ ind @ '']'')"
| "stringify_ind ind (JObj kvs) =
     (if kvs = [] then ''{}''
      else ''{'' @ [CHR 0x0A] @ sep_by ('','' @ [CHR 0x0A])
             (map (\<lambda>kv. (ind @ ''  '') @ show_string (fst kv) @ '': '' @ stringify_ind (ind @ ''  '') (snd kv)) kvs)
           @ [CHR 0x0A] @ ind @ ''}'')"

fun read_chars :: "string \<Rightarrow> (string \<times> string) option" where
  "read_chars [] = None"
| "read_chars (c # cs) =
     (if c = CHR 0x22 then Some ([], cs)
      else if c = CHR 0x5C then
        (case cs of
           [] \<Rightarrow> None
         | d # ds \<Rightarrow>
             (if d = CHR 0x22 \<or> d = CHR 0x5C \<or> d = CHR ''/'' then
                map_option (\<lambda>(t, r). (d # t, r)) (read_chars ds)
              else if d = CHR ''n'' then map_option (\<lambda>(t, r). (CHR 0x0A # t, r)) (read_chars ds)
              else None))
      else map_option (\<lambda>(t, r). (c # t, r)) (read_chars cs))"

fun read_value :: "nat \<Rightarrow> string \<Rightarrow> (json \<times> string) option"
  and read_elems :: "nat \<Rightarrow> json list \<Rightarrow> string \<Rightarrow> (json list \<times> string) option"
  and read_members :: "nat \<Rightarrow> (string \<times> json) list \<Rightarrow> string \<Rightarrow> ((string \<times> json) list \<times> string) option"
where
  "read_value 0 s = None"
| "read_value (Suc n) s =
     (case skip_ws s of
        [] \<Rightarrow> None
      | c # cs \<Rightarrow>
          if c = CHR ''n'' then (if take 3 cs = ''ull'' then Some (JNull, drop 3 cs) else None)
          else if c = CHR ''t'' then (if take 3 cs = ''rue'' then Some (JBool True, drop 3 cs) else None)
          else if c = CHR ''f'' then (if take 4 cs = ''alse'' then Some (JBool False, drop 4 cs) else None)
          else if c = CHR 0x22 then map_option (\<lambda>(t, r). (JStr t, r)) (read_chars cs)
          else if c = CHR ''['' then
            (case skip_ws cs of
               [] \<Rightarrow> None
             | d # ds \<Rightarrow> if d = CHR '']'' then Some (JArr [], ds)
                         else map_option (\<lambda>(xs, r). (JArr xs, r)) (read_elems n [] cs))
          else if c = CHR ''{'' then
            (case skip_ws cs of
               [] \<Rightarrow> None
             | d # ds \<Rightarrow> if d = CHR ''}'' then Some (JObj [], ds)
                         else map_option (\<lambda>(kvs, r). (JObj kvs, r)) (read_members n [] cs))
          else if c = CHR ''-'' then
            (if takeWhile is_digit cs = [] then None
             else Some (JNum (- int (read_nat (takeWhile is_digit cs))), dropWhile is_digit cs))
          else if is_digit c then
            Some (JNum (int (read_nat (takeWhile is_digit (c # cs)))), dropWhile is_digit cs)
          else None)"
| "read_elems 0 acc s = None"
| "read_elems (Suc n) acc s =
     (case read_value n s of
        None \<Rightarrow> None
      | Some (v, r) \<Rightarrow>
          (case skip_ws r of
             [] \<Rightarrow> None
           | c # cs \<Rightarrow> if c = CHR '','' then read_elems n (acc @ [v]) cs
                       else if c = CHR '']'' then Some (acc @ [v], cs)
                       else None))"
| "read_members 0 acc s = None"
| "read_members (Suc n) acc s =
     (case skip_ws s of
        [] \<Rightarrow> None
      | q # qs \<Rightarrow>
          if q \<noteq> CHR 0x22 then None
          else
            (case read_chars qs of
               None \<Rightarrow> None
             | Some (k, r) \<Rightarrow>
                 (case skip_ws r of
                    [] \<Rightarrow> None
                  | c # cs \<Rightarrow>
                      if c \<noteq> CHR '':'' then None
                      else
                        (case read_value n cs of
                           None \<Rightarrow> None
                         | Some (v, r') \<Rightarrow>
                             (case skip_ws r' of
                                [] \<Rightarrow> None
                              | e # es \<Rightarrow>
                                  if e = CHR '','' then read_members n (set_member k v acc) es
                                  else if e = CHR ''}'' then Some (set_member k v acc, es)
                                  else None)))))"

definition SyntaxError :: error where
  "SyntaxError = JsError ''SyntaxError'' ''Unexpected token in JSON''"

definition parse_json :: "string \<Rightarrow> error + json" where
  "parse_json s =
     (case read_value (Suc (Suc (length s + length s))) s of
        None \<Rightarrow> Inl SyntaxError
      | Some (v, r) \<Rightarrow> if skip_ws r = [] then Inr v else Inl SyntaxError)"

text \<open>\<open>JSON.stringify(v)\<close>, without white space.\<close>

fun stringify_compact :: "json \<Rightarrow> string" where
  "stringify_compact JNull = ''null''"
| "stringify_compact (JBool b) = (if b then ''true'' else ''false'')"
| "stringify_compact (JNum n) = show_int n"
| "stringify_compact (JStr s) = show_string s"
| "stringify_compact (JArr xs) = ''['' @ sep_by '','' (map stringify_compact xs) @ '']''"
| "stringify_compact (JObj kvs) =
     ''{'' @ sep_by '','' (map (\<lambda>kv. show_string (fst kv) @ '':'' @ stringify_compact (snd kv)) kvs)
     @ ''}''"

text \<open>
  The reference platform: the codec above, a process table \<open>live\<close> (\<open>process.kill\<close>
  wants a number and fails with \<open>ESRCH\<close> on one that is not running), the server's own
  process identifier \<open>self\<close>, a clock reading \<open>now\<close>, and a loopback interface on which
  the ports in \<open>busy\<close> are taken.
\<close>

definition ref_kill_0 :: "int list \<Rightarrow> json option \<Rightarrow> error + unit" where
  "ref_kill_0 live p =
     (case p of
        Some (JNum n) \<Rightarrow> if n \<in> set live then Inr () else Inl (JsError ''Error'' ''kill ESRCH'')
      | _ \<Rightarrow> Inl (JsError ''TypeError'' ''The \"pid\" argument must be of type number''))"

definition ref_listen :: "int list \<Rightarrow> int \<Rightarrow> error + unit" where
  "ref_listen busy p =
     (if p \<in> set busy then Inl (JsError ''Error'' ''listen EADDRINUSE'') else Inr ())"

definition ref_platform :: "int list \<Rightarrow> int \<Rightarrow> string \<Rightarrow> int list \<Rightarrow> platform" where
  "ref_platform live self now busy =
     \<lparr>JSON_parse = parse_json, JSON_stringify_2 = stringify_ind [],
      JSON_stringify = stringify_compact, process_kill_0 = ref_kill_0 live,
      process_pid = self, Date_toISOString = now, net_listen = ref_listen busy\<rparr>"

text \<open>
  A reference driver: while \<open>healthy\<close> holds of the effects so far, the application
  launches, answers and closes; afterwards every call throws. Its scripts all return 2.
\<close>

definition target_closed :: error where
  "target_closed = JsError ''Error'' ''Target page, context or browser has been closed''"

definition ref_answer :: "app_query \<Rightarrow> string" where
  "ref_answer q =
     (case q of GetName \<Rightarrow> ''demo'' | GetVersion \<Rightarrow> ''1.0.0'' | GetLocale \<Rightarrow> ''en-US''
      | GetAppPath \<Rightarrow> ''/opt/demo'')"

definition ref_driver :: "(history \<Rightarrow> bool) \<Rightarrow> driver" where
  "ref_driver healthy =
     \<lparr>launchElectron = (\<lambda>h lo. if healthy h then Inr (ElectronApplication 1) else Inl target_closed),
      firstWindow = (\<lambda>h a. if healthy h then Inr (Page 1) else Inl target_closed),
      waitForLoadState = (\<lambda>h p. if healthy h then Inr () else Inl target_closed),
      evaluate = (\<lambda>h a q. if healthy h then Inr (ref_answer q) else Inl target_closed),
      app_close = (\<lambda>h a. if healthy h then Inr () else Inl target_closed),
      run_script = (\<lambda>h s a p. if healthy h then Inr (Some (JNum 2)) else Inl target_closed),
      screenshot = (\<lambda>h p out. if healthy h then Inr () else Inl target_closed)\<rparr>"

definition always :: "history \<Rightarrow> bool" where
  "always h = True"

definition never :: "history \<Rightarrow> bool" where
  "never h = False"

fun is_response :: "effect \<Rightarrow> bool" where
  "is_response (SendJson status b) = True"
| "is_response e = False"

fun is_listen :: "effect \<Rightarrow> bool" where
  "is_listen (Listen p) = True"
| "is_listen e = False"

definition until_listening :: "history \<Rightarrow> bool" where
  "until_listening h = (\<not> list_ex is_listen h)"

definition empty_fs :: fs_state where
  "empty_fs = \<lparr>session_dir = False, session_file = None\<rparr>"

definition demo_options :: options where
  "demo_options =
     \<lparr>options.appPath = ''/opt/demo'', options.args = None, options.timeout = Some 30000,
      options.port = Some 9847\<rparr>"

definition demo_platform :: platform where
  "demo_platform = ref_platform [4242] 4242 ''2024-01-01T00:00:00.000Z'' []"

definition garbage_fs :: fs_state where
  "garbage_fs = \<lparr>session_dir = True, session_file = Some ''{oops''\<rparr>"

definition null_fs :: fs_state where
  "null_fs = \<lparr>session_dir = True, session_file = Some ''null''\<rparr>"

definition number_fs :: fs_state where
  "number_fs = \<lparr>session_dir = True, session_file = Some ''42''\<rparr>"

definition partial_fs :: fs_state where
  "partial_fs = \<lparr>session_dir = True, session_file = Some ''{\"port\": 9847}''\<rparr>"

definition demo_session :: SessionInfo where
  "demo_session =
     \<lparr>SessionInfo.port = 9847, SessionInfo.appPath = ''/opt/demo'', pid = 4242,
      startedAt = ''2024-01-01T00:00:00.000Z''\<rparr>"

text \<open>Requests, worlds and stores used as examples, and the vocabulary of the statements.\<close>

definition status_request :: request where
  "status_request = \<lparr>req_method = ''GET'', url = ''/status'', body = []\<rparr>"

definition close_request :: request where
  "close_request = \<lparr>req_method = ''POST'', url = ''/close'', body = []\<rparr>"

definition eval_request :: "string \<Rightarrow> request" where
  "eval_request b = \<lparr>req_method = ''POST'', url = ''/eval'', body = b\<rparr>"

definition demo_trace :: "effect list" where
  "demo_trace =
     [Drv_launch \<lparr>executablePath = ''/opt/demo'', LaunchOptions.args = None,
                  LaunchOptions.timeout = Some 30000\<rparr>,
      Drv_firstWindow (ElectronApplication 1), Drv_waitForLoadState (Page 1),
      Drv_evaluate (ElectronApplication 1) GetName, Drv_evaluate (ElectronApplication 1) GetVersion,
      Drv_evaluate (ElectronApplication 1) GetLocale, Drv_evaluate (ElectronApplication 1) GetAppPath,
      Listen 9847, SaveSession (session_json demo_session)]"

definition demo_world :: world where
  "demo_world =
     \<lparr>state = \<lparr>app = Some (ElectronApplication 1), window = Some (Page 1), appPath = ''/opt/demo''\<rparr>,
      fs = \<lparr>session_dir = True,
            session_file = Some (JSON_stringify_2 demo_platform (session_json demo_session))\<rparr>,
      listening = True, headersSent = False, trace = demo_trace\<rparr>"


definition new_effects :: "world \<Rightarrow> world \<Rightarrow> effect list" where
  "new_effects w w' = drop (length (trace w)) (trace w')"

definition closing_order :: "ElectronApplication option \<Rightarrow> effect list" where
  "closing_order ao =
     (case ao of None \<Rightarrow> [] | Some a \<Rightarrow> [Drv_close a]) @ [ClearSession, ServerClose, ProcessExit 0]"



definition no_session_error :: error where
  "no_session_error = JsError ''Error'' no_session_message"

definition not_alive_error :: error where
  "not_alive_error = JsError ''Error'' not_alive_message"

definition saved_fs :: fs_state where
  "saved_fs =
     \<lparr>session_dir = True,
      session_file = Some (JSON_stringify_2 demo_platform (session_json demo_session))\<rparr>"

definition dead_platform :: platform where
  "dead_platform = ref_platform [] 77 ''2024-01-02T00:00:00.000Z'' []"

definition unreachable :: network where
  "unreachable c = Inl (JsError ''Error'' ''connect ECONNREFUSED'')"

text \<open>
  A server after its start handles requests one after the other until one ends the
  process; \<open>session\<close> is the \<open>open\<close> action followed by requests. \<open>kept\<close> relates
  two worlds with the same \<open>state\<close> and the same store, or the store without the
  descriptor; \<open>keeps\<close> says that a piece of the program only leads to such worlds.
\<close>

definition kept :: "world \<Rightarrow> world \<Rightarrow> bool" where
  "kept w w' =
     (state w' = state w \<and> (fs w' = fs w \<or> fs w' = (fs w)\<lparr>session_file := None\<rparr>))"

fun serve :: "platform \<Rightarrow> driver \<Rightarrow> request list \<Rightarrow> unit io" where
  "serve P D [] w = (Return (), w)"
| "serve P D (req # reqs) w =
     (case handleRequest P D req w of
        (Return u, w') \<Rightarrow> serve P D reqs w'
      | (Throw e, w') \<Rightarrow> (Throw e, w')
      | (Exit c, w') \<Rightarrow> (Exit c, w'))"

definition session :: "platform \<Rightarrow> driver \<Rightarrow> bool \<Rightarrow> options \<Rightarrow> request list \<Rightarrow> unit io" where
  "session P D path_given opts reqs = bind_io (open_action P D path_given opts) (\<lambda>u. serve P D reqs)"

definition keeps :: "'a io \<Rightarrow> bool" where
  "keeps m = (\<forall>w r w'. m w = (r, w') \<longrightarrow> kept w w')"

text \<open>
  The text of one member of an object as \<open>stringify_ind\<close> writes it at the first level:
  a line feed, two spaces, the quoted name, a colon, and what follows.
\<close>

definition member_text :: "string \<Rightarrow> string \<Rightarrow> string" where
  "member_text k v =
     CHR 0x0A # CHR '' '' # CHR '' '' # CHR 0x22 # quote_chars k @ CHR 0x22 # CHR '':'' # v"

section \<open>Evaluating the reference platform\<close>

lemmas codec_eval =
  parse_json_def skip_ws_def is_ws_def is_digit_def digit_chars_def digit_val_def read_nat_def
  show_int_def show_nat.simps show_string_def

lemma parse_garbage: "JSON_parse demo_platform ''{oops'' = Inl SyntaxError"
  by (simp add: demo_platform_def ref_platform_def codec_eval)

lemma parse_null: "JSON_parse demo_platform ''null'' = Inr JNull"
  by (simp add: demo_platform_def ref_platform_def codec_eval)

lemma parse_number: "JSON_parse demo_platform ''42'' = Inr (JNum 42)"
  by (simp add: demo_platform_def ref_platform_def codec_eval)

lemma parse_partial:
  "JSON_parse demo_platform ''{\"port\": 9847}'' = Inr (JObj [(''port'', JNum 9847)])"
  by (simp add: demo_platform_def ref_platform_def codec_eval)

lemma demo_round_trip:
  "JSON_parse demo_platform (JSON_stringify_2 demo_platform (session_json demo_session))
   = Inr (session_json demo_session)"
  by (simp add: demo_platform_def ref_platform_def demo_session_def session_json_def codec_eval)

section \<open>The descriptor store\<close>

lemmas store_defs =
  loadSession_def loadSession_try_def existsSync_file_def readFileSync_def
  clearSession_def clearSession_try_def unlinkSync_def saveSession_def ensureSessionDir_def
  existsSync_dir_def mkdirSync_def writeFileSync_def

lemma loadSession_total: "\<exists>v. loadSession P f = Inr v"
  by (simp add: store_defs split: option.splits sum.splits)

lemma loadSession_missing: "session_file f = None \<Longrightarrow> loadSession P f = Inr JNull"
  by (simp add: store_defs)

lemma loadSession_present:
  "session_file f = Some s \<Longrightarrow>
   loadSession P f = (case JSON_parse P s of Inl e \<Rightarrow> Inr JNull | Inr v \<Rightarrow> Inr v)"
  by (simp add: store_defs split: sum.splits)

lemma clearSession_result: "clearSession f = Inr (f\<lparr>session_file := None\<rparr>)"
  by (cases "session_file f") (simp_all add: store_defs)

lemma saveSession_result:
  "saveSession P s f =
   Inr (f\<lparr>session_dir := True, session_file := Some (JSON_stringify_2 P s)\<rparr>)"
  by (simp add: store_defs)

lemma session_json_inject: "session_json d = session_json d' \<Longrightarrow> d = d'"
  by (cases d, cases d') (simp add: session_json_def)

subsection \<open>The reference codec reads back every descriptor it writes\<close>

lemma digit_cases:
  assumes "k < 10"
  shows "k = 0 \<or> k = 1 \<or> k = 2 \<or> k = 3 \<or> k = 4 \<or> k = 5 \<or> k = 6 \<or> k = 7 \<or> k = 8 \<or> k = (9::nat)"
  using assms by arith

lemma digit_val_nth: "k < 10 \<Longrightarrow> digit_val (digit_chars ! k) = k"
  by (drule digit_cases) (auto simp: digit_val_def digit_chars_def)

lemma is_digit_nth: "k < 10 \<Longrightarrow> is_digit (digit_chars ! k)"
  by (drule digit_cases) (auto simp: is_digit_def digit_chars_def)

lemma show_nat_digits: "\<forall>c \<in> set (show_nat n). is_digit c"
proof (induction n rule: show_nat.induct)
  case (1 n)
  show ?case
  proof (cases "n < 10")
    case True
    then show ?thesis by (simp add: show_nat.simps [of n] is_digit_nth)
  next
    case False
    with "1" show ?thesis
      by (simp add: show_nat.simps [of n] is_digit_nth)
  qed
qed

lemma show_nat_nonempty: "show_nat n \<noteq> []"
  by (simp add: show_nat.simps [of n])

lemma read_nat_snoc: "read_nat (ds @ [c]) = 10 * read_nat ds + digit_val c"
  by (simp add: read_nat_def)

lemma read_nat_show_nat: "read_nat (show_nat n) = n"
proof (induction n rule: show_nat.induct)
  case (1 n)
  show ?case
  proof (cases "n < 10")
    case True
    then show ?thesis
      by (simp add: show_nat.simps [of n] read_nat_def digit_val_nth)
  next
    case False
    with "1" show ?thesis
      by (simp add: show_nat.simps [of n] read_nat_snoc digit_val_nth)
  qed
qed

lemma digits_then_other:
  assumes "\<forall>c \<in> set ds. is_digit c" and "\<not> is_digit c"
  shows "takeWhile is_digit (ds @ c # r) = ds" and "dropWhile is_digit (ds @ c # r) = c # r"
  using assms by (induction ds) simp_all

lemma is_digit_not_special:
  assumes "is_digit d"
  shows "\<not> is_ws d" and "d \<noteq> CHR ''n''" and "d \<noteq> CHR ''t''" and "d \<noteq> CHR ''f''"
    and "d \<noteq> CHR 0x22" and "d \<noteq> CHR ''[''" and "d \<noteq> CHR ''{''" and "d \<noteq> CHR ''-''"
  using assms by (auto simp: is_digit_def digit_chars_def is_ws_def)

lemma skip_ws_space: "skip_ws (CHR '' '' # s) = skip_ws s"
  by (simp add: skip_ws_def is_ws_def)

lemma skip_ws_newline: "skip_ws (CHR 0x0A # s) = skip_ws s"
  by (simp add: skip_ws_def is_ws_def)

lemma skip_ws_other: "\<not> is_ws c \<Longrightarrow> skip_ws (c # s) = c # s"
  by (simp add: skip_ws_def)

lemma read_value_int:
  assumes "\<not> is_digit c"
  shows "read_value (Suc n) (CHR '' '' # show_int i @ c # r) = Some (JNum i, c # r)"
proof (cases "i < 0")
  case True
  let ?m = "nat (- i)"
  have s: "show_int i = CHR ''-'' # show_nat ?m"
    using True by (simp add: show_int_def)
  have t: "takeWhile is_digit (show_nat ?m @ c # r) = show_nat ?m"
    and d: "dropWhile is_digit (show_nat ?m @ c # r) = c # r"
    using show_nat_digits assms by (rule digits_then_other)+
  from True have "- int (read_nat (show_nat ?m)) = i"
    by (simp add: read_nat_show_nat)
  then show ?thesis
    by (simp add: s skip_ws_space skip_ws_other is_ws_def t d show_nat_nonempty)
next
  case False
  let ?m = "nat i"
  have s: "show_int i = show_nat ?m"
    using False by (simp add: show_int_def)
  obtain d ds where ds: "show_nat ?m = d # ds"
    using show_nat_nonempty [of ?m] by (cases "show_nat ?m") auto
  with show_nat_digits [of ?m] have dd: "is_digit d" and dds: "\<forall>c \<in> set ds. is_digit c"
    by simp_all
  have t: "takeWhile is_digit (ds @ c # r) = ds" and dr: "dropWhile is_digit (ds @ c # r) = c # r"
    using dds assms by (rule digits_then_other)+
  from False have "int (read_nat (d # ds)) = i"
    using read_nat_show_nat [of ?m] ds by simp
  then show ?thesis
    using is_digit_not_special [OF dd] dd
    by (simp add: s ds skip_ws_space skip_ws_other t dr)
qed

lemma read_chars_quoted: "read_chars (quote_chars s @ CHR 0x22 # r) = Some (s, r)"
  by (induction s) simp_all

lemma read_value_string:
  "read_value (Suc n) (CHR '' '' # CHR 0x22 # quote_chars s @ CHR 0x22 # r) = Some (JStr s, r)"
  by (simp add: skip_ws_space skip_ws_other is_ws_def read_chars_quoted)

lemma not_digit_comma: "\<not> is_digit CHR '',''" and not_digit_newline: "\<not> is_digit (CHR 0x0A)"
  by (simp_all add: is_digit_def digit_chars_def)

lemma stringify_descriptor:
  "stringify_ind [] (session_json d) =
     CHR ''{'' #
     member_text ''port'' (CHR '' '' # show_int (SessionInfo.port d) @ CHR '','' #
     member_text ''appPath'' (CHR '' '' # CHR 0x22 # quote_chars (SessionInfo.appPath d) @
       CHR 0x22 # CHR '','' #
     member_text ''pid'' (CHR '' '' # show_int (pid d) @ CHR '','' #
     member_text ''startedAt'' (CHR '' '' # CHR 0x22 # quote_chars (startedAt d) @
       CHR 0x22 # CHR 0x0A # ''}''))))"
  by (simp add: session_json_def show_string_def member_text_def)

lemma read_value_object:
  "read_value (Suc n) (CHR ''{'' # member_text k v)
   = map_option (\<lambda>(kvs, r). (JObj kvs, r)) (read_members n [] (member_text k v))"
  by (simp add: member_text_def skip_ws_space skip_ws_newline skip_ws_other is_ws_def)

lemma read_member:
  "read_members (Suc n) acc (member_text k v)
   = (case read_value n v of
        None \<Rightarrow> None
      | Some (x, r') \<Rightarrow>
          (case skip_ws r' of
             [] \<Rightarrow> None
           | e # es \<Rightarrow>
               if e = CHR '','' then read_members n (set_member k x acc) es
               else if e = CHR ''}'' then Some (set_member k x acc, es)
               else None))"
  by (simp add: member_text_def skip_ws_space skip_ws_newline skip_ws_other is_ws_def
      read_chars_quoted)

lemma skip_ws_comma: "skip_ws (CHR '','' # s) = CHR '','' # s"
  by (simp add: skip_ws_other is_ws_def)

lemma skip_ws_end: "skip_ws (CHR 0x0A # ''}'') = ''}''"
  by (simp add: skip_ws_newline skip_ws_other is_ws_def)

lemma read_descriptor:
  "read_value (Suc (Suc (Suc (Suc (Suc (Suc m)))))) (stringify_ind [] (session_json d))
   = Some (session_json d, [])"
  unfolding stringify_descriptor
  by (simp only: read_value_object read_member read_value_int [OF not_digit_comma]
      read_value_string skip_ws_comma skip_ws_end option.case prod.case list.case if_True if_False
      set_member.simps option.map session_json_def)
    simp

lemma parse_descriptor: "parse_json (stringify_ind [] (session_json d)) = Inr (session_json d)"
proof -
  let ?s = "stringify_ind [] (session_json d)"
  have "2 \<le> length ?s"
    by (simp add: stringify_descriptor member_text_def)
  then obtain k where "length ?s = 2 + k"
    using le_Suc_ex by blast
  then have "Suc (Suc (length ?s + length ?s)) = Suc (Suc (Suc (Suc (Suc (Suc (k + k))))))"
    by simp
  then have "read_value (Suc (Suc (length ?s + length ?s))) ?s = Some (session_json d, [])"
    by (simp only: read_descriptor)
  then show ?thesis
    by (simp add: parse_json_def skip_ws_def)
qed

lemma reference_descriptors_well_formed:
  "JSON_parse (ref_platform live self now busy)
     (JSON_stringify_2 (ref_platform live self now busy) (session_json d))
   = Inr (session_json d)"
  by (simp add: ref_platform_def parse_descriptor)

lemma reference_save_then_load:
  "\<exists>f'. saveSession (ref_platform live self now busy) (session_json d) f = Inr f'
       \<and> loadSession (ref_platform live self now busy) f' = Inr (session_json d)"
  by (simp add: saveSession_result loadSession_present reference_descriptors_well_formed)

text \<open>
  C7. A descriptor is well formed on a platform when the platform's JSON reads back what
  it writes for it (on the reference platform every descriptor is). Saving such a
  descriptor and then loading gives the descriptor back, from any state of the store; and
  loading after a clear gives \<open>null\<close>, the absent session.
\<close>

theorem save_load_round_trip:
  assumes "JSON_parse P (JSON_stringify_2 P (session_json d)) = Inr (session_json d)"
  shows "(\<exists>f'. saveSession P (session_json d) f = Inr f'
              \<and> loadSession P f' = Inr (session_json d))
         \<and> (\<exists>f''. clearSession f = Inr f'' \<and> loadSession P f'' = Inr JNull)"
  using assms
  by (simp add: saveSession_result clearSession_result loadSession_present loadSession_missing)

theorem save_load_round_trip_witness:
  "JSON_parse demo_platform (JSON_stringify_2 demo_platform (session_json demo_session))
     = Inr (session_json demo_session)
   \<and> (\<exists>f'. saveSession demo_platform (session_json demo_session) empty_fs = Inr f'
          \<and> loadSession demo_platform f' = Inr (session_json demo_session))
   \<and> (\<exists>f''. clearSession empty_fs = Inr f'' \<and> loadSession demo_platform f'' = Inr JNull)"
  using save_load_round_trip [OF demo_round_trip, of empty_fs] demo_round_trip by simp

text \<open>
  C8. Loading gives \<open>null\<close> when the file is missing and when its contents do not parse;
  clearing a store without the file returns and leaves it as it is; and neither
  \<open>loadSession\<close> nor \<open>clearSession\<close> throws, on any store.
\<close>

theorem load_and_clear_never_raise:
  "(session_file f = None \<longrightarrow> loadSession P f = Inr JNull \<and> clearSession f = Inr f)
   \<and> (\<forall>s e. session_file f = Some s \<and> JSON_parse P s = Inl e \<longrightarrow> loadSession P f = Inr JNull)
   \<and> (\<exists>v. loadSession P f = Inr v) \<and> (\<exists>f'. clearSession f = Inr f')"
  by (auto simp: loadSession_missing loadSession_present clearSession_result loadSession_total)

theorem load_and_clear_never_raise_witness:
  "session_file empty_fs = None \<and> loadSession demo_platform empty_fs = Inr JNull
   \<and> clearSession empty_fs = Inr empty_fs
   \<and> session_file garbage_fs = Some ''{oops''
   \<and> JSON_parse demo_platform ''{oops'' = Inl SyntaxError
   \<and> loadSession demo_platform garbage_fs = Inr JNull"
  using load_and_clear_never_raise [of empty_fs demo_platform]
    load_and_clear_never_raise [of garbage_fs demo_platform] parse_garbage
  by (simp add: empty_fs_def garbage_fs_def)

text \<open>
  C10, as stated, says that whatever the contents parse to comes back as a present
  session. The contents \<open>null\<close> parse, and what comes back is \<open>null\<close>: the absent one.
\<close>

theorem load_null_counterexample:
  "session_file null_fs = Some ''null'' \<and> JSON_parse demo_platform ''null'' = Inr JNull
   \<and> loadSession demo_platform null_fs = Inr JNull"
  by (simp add: null_fs_def loadSession_present parse_null)

text \<open>
  C10, amended. \<open>loadSession\<close> validates nothing: whatever the contents parse to is
  what it returns, so every parsed value other than \<open>null\<close> is returned as the session,
  be it a number, a string or an object without the members of a descriptor.
\<close>

theorem load_returns_parsed_value:
  assumes "session_file f = Some s" and "JSON_parse P s = Inr v"
  shows "loadSession P f = Inr v \<and> (v \<noteq> JNull \<longrightarrow> loadSession P f \<noteq> Inr JNull)"
  using assms by (simp add: loadSession_present)

theorem load_returns_parsed_value_witness:
  "session_file number_fs = Some ''42'' \<and> JSON_parse demo_platform ''42'' = Inr (JNum 42)
   \<and> loadSession demo_platform number_fs = Inr (JNum 42)
   \<and> JNum 42 \<noteq> JNull \<and> loadSession demo_platform number_fs \<noteq> Inr JNull
   \<and> session_file partial_fs = Some ''{\"port\": 9847}''
   \<and> loadSession demo_platform partial_fs = Inr (JObj [(''port'', JNum 9847)])"
  using load_returns_parsed_value [of number_fs "''42''" demo_platform "JNum 42"]
    load_returns_parsed_value [of partial_fs "''{\"port\": 9847}''" demo_platform
      "JObj [(''port'', JNum 9847)]"]
    parse_number parse_partial
  by (simp add: number_fs_def partial_fs_def)

section \<open>The server\<close>

lemmas io_defs = ret_def throw_def bind_io_def try_catch_def emit_def await_def process_exit_def
  sendJson_def query_def

lemma getAppInfo_cases:
  "getAppInfo D a w =
     (let h0 = trace w; h1 = h0 @ [Drv_evaluate a GetName]; h2 = h1 @ [Drv_evaluate a GetVersion];
          h3 = h2 @ [Drv_evaluate a GetLocale]; h4 = h3 @ [Drv_evaluate a GetAppPath];
          w' = w\<lparr>trace := h4\<rparr>
      in case evaluate D h0 a GetName of
           Inl e \<Rightarrow> (Throw e, w')
         | Inr n \<Rightarrow>
        (case evaluate D h1 a GetVersion of
           Inl e \<Rightarrow> (Throw e, w')
         | Inr v \<Rightarrow>
        (case evaluate D h2 a GetLocale of
           Inl e \<Rightarrow> (Throw e, w')
         | Inr l \<Rightarrow>
        (case evaluate D h3 a GetAppPath of
           Inl e \<Rightarrow> (Throw e, w')
         | Inr p \<Rightarrow> (Return \<lparr>name = n, version = v, app_locale = l, path = p\<rparr>, w')))))"
  by (simp add: getAppInfo_def io_defs Let_def split: sum.splits)

lemma getAppInfo_frame:
  "getAppInfo D a w = (r, w') \<Longrightarrow>
   w' = w\<lparr>trace := trace w @ [Drv_evaluate a GetName, Drv_evaluate a GetVersion,
                               Drv_evaluate a GetLocale, Drv_evaluate a GetAppPath]\<rparr>"
  by (auto simp: getAppInfo_cases Let_def split: sum.splits)

lemma getAppInfo_not_Exit: "getAppInfo D a w \<noteq> (Exit c, w')"
  by (auto simp: getAppInfo_cases Let_def split: sum.splits)

lemma startServer_launch_Throw:
  "launchElectron D (trace w) (launch_options opts) = Inl e \<Longrightarrow>
   startServer_launch D opts w = (Throw e, w\<lparr>trace := trace w @ [Drv_launch (launch_options opts)]\<rparr>)"
  by (simp add: startServer_launch_def io_defs)

lemma startServer_launch_Return:
  assumes "startServer_launch D opts w = (Return u, w')"
  shows "\<exists>a p. launchElectron D (trace w) (launch_options opts) = Inr a
           \<and> state w' = \<lparr>app = Some a, window = Some p, appPath = options.appPath opts\<rparr>
           \<and> fs w' = fs w \<and> listening w' = listening w \<and> headersSent w' = headersSent w
           \<and> trace w' = trace w @ [Drv_launch (launch_options opts), Drv_firstWindow a,
                Drv_waitForLoadState p, Drv_evaluate a GetName, Drv_evaluate a GetVersion,
                Drv_evaluate a GetLocale, Drv_evaluate a GetAppPath]"
  using assms
  apply (simp add: startServer_launch_def io_defs set_app_def set_window_def set_appPath_def
      split: sum.splits prod.splits outcome.splits)
  apply (auto dest!: getAppInfo_frame simp: )
  done

lemma saveSession_io_result:
  "saveSession_io P s w =
   (Return (), w\<lparr>fs := (fs w)\<lparr>session_dir := True, session_file := Some (JSON_stringify_2 P s)\<rparr>,
                  trace := trace w @ [SaveSession s]\<rparr>)"
  by (simp add: saveSession_io_def saveSession_def ensureSessionDir_def existsSync_dir_def
      mkdirSync_def writeFileSync_def)

lemma server_listen_cases:
  "server_listen P opts w =
     (case net_listen P (effective_port opts) of
        Inl e \<Rightarrow> (Throw e, w)
      | Inr u \<Rightarrow>
          (Return (),
           w\<lparr>listening := True,
             fs := (fs w)\<lparr>session_dir := True,
                    session_file := Some (JSON_stringify_2 P (session_json (new_session P opts)))\<rparr>,
             trace := trace w @ [Listen (effective_port opts),
                                 SaveSession (session_json (new_session P opts))]\<rparr>))"
  by (simp add: server_listen_def io_defs saveSession_io_result split: sum.splits)

lemma startServer_launch_frame:
  "startServer_launch D opts w = (r, w') \<Longrightarrow>
   fs w' = fs w \<and> listening w' = listening w
   \<and> (\<exists>t. trace w' = trace w @ Drv_launch (launch_options opts) # t \<and> list_all is_driver_call t)
   \<and> r \<noteq> Exit c"
  apply (simp add: startServer_launch_def io_defs set_app_def set_window_def set_appPath_def
      split: sum.splits prod.splits outcome.splits)
  apply (auto dest!: getAppInfo_frame simp: getAppInfo_not_Exit)
  done

lemma startServer_Return:
  assumes "startServer P D opts w = (Return u, w')"
  shows "\<exists>a p. launchElectron D (trace w) (launch_options opts) = Inr a
           \<and> state w' = \<lparr>app = Some a, window = Some p, appPath = options.appPath opts\<rparr>
           \<and> fs w' = (fs w)\<lparr>session_dir := True,
                  session_file := Some (JSON_stringify_2 P (session_json (new_session P opts)))\<rparr>
           \<and> listening w' \<and> headersSent w' = headersSent w
           \<and> trace w' = trace w @ [Drv_launch (launch_options opts), Drv_firstWindow a,
                Drv_waitForLoadState p, Drv_evaluate a GetName, Drv_evaluate a GetVersion,
                Drv_evaluate a GetLocale, Drv_evaluate a GetAppPath,
                Listen (effective_port opts), SaveSession (session_json (new_session P opts))]"
proof -
  from assms obtain w1 where l: "startServer_launch D opts w = (Return (), w1)"
    and s: "server_listen P opts w1 = (Return u, w')"
    by (auto simp: startServer_def bind_io_def split: prod.splits outcome.splits)
  from startServer_launch_Return [OF l] obtain a p where
    a: "launchElectron D (trace w) (launch_options opts) = Inr a"
    and st: "state w1 = \<lparr>app = Some a, window = Some p, appPath = options.appPath opts\<rparr>"
    and rest: "fs w1 = fs w" "listening w1 = listening w" "headersSent w1 = headersSent w"
    and tr: "trace w1 = trace w @ [Drv_launch (launch_options opts), Drv_firstWindow a,
                Drv_waitForLoadState p, Drv_evaluate a GetName, Drv_evaluate a GetVersion,
                Drv_evaluate a GetLocale, Drv_evaluate a GetAppPath]"
    by blast
  from s have "w' = w1\<lparr>listening := True,
             fs := (fs w1)\<lparr>session_dir := True,
                    session_file := Some (JSON_stringify_2 P (session_json (new_session P opts)))\<rparr>,
             trace := trace w1 @ [Listen (effective_port opts),
                                 SaveSession (session_json (new_session P opts))]\<rparr>"
    by (auto simp: server_listen_cases split: sum.splits)
  with a st rest tr show ?thesis by auto
qed

lemma route_status:
  "handleRequest P D status_request w =
   try_catch (handleStatus D) (\<lambda>e. sendJson 500 (error_body (String_of e)))
     (w\<lparr>headersSent := False\<rparr>)"
  by (simp add: handleRequest_def status_request_def)

lemma route_close:
  "handleRequest P D close_request w =
   try_catch (handleClose D) (\<lambda>e. sendJson 500 (error_body (String_of e)))
     (w\<lparr>headersSent := False\<rparr>)"
  by (simp add: handleRequest_def close_request_def)

lemma route_eval:
  "handleRequest P D (eval_request b) w =
   try_catch (handleEval P D (eval_request b)) (\<lambda>e. sendJson 500 (error_body (String_of e)))
     (w\<lparr>headersSent := False\<rparr>)"
  by (simp add: handleRequest_def eval_request_def)

lemma error_body_eq: "error_body m = JObj [(''error'', JStr m)]"
  by (simp add: error_body_def object_literal_def)


lemma handleStatus_owned:
  assumes "app (state w) = Some a" and "headersSent w = False"
  shows "handleStatus D w =
     (case getAppInfo D a w of
        (Return i, w') \<Rightarrow>
          (Return (), w'\<lparr>headersSent := True, trace := trace w' @
             [SendJson 200 (JObj [(''status'', JStr ''running''),
                (''appPath'', JStr (ServerState.appPath (state w))),
                (''name'', JStr (name i)), (''version'', JStr (version i)),
                (''locale'', JStr (app_locale i)), (''path'', JStr (path i))])]\<rparr>)
      | (Throw e, w') \<Rightarrow>
          (Return (), w'\<lparr>headersSent := True, trace := trace w' @
             [SendJson 500 (JObj [(''error'', JStr (String_of e))])]\<rparr>)
      | (Exit c, w') \<Rightarrow> (Exit c, w'))"
  using assms
  by (auto simp: handleStatus_def try_catch_def bind_io_def sendJson_def object_literal_def
      info_members_def error_body_def
      dest!: getAppInfo_frame split: prod.splits outcome.splits)

lemmas server_eval =
  startServer_def startServer_launch_def server_listen_def saveSession_io_result
  set_app_def set_window_def set_appPath_def getAppInfo_def io_defs
  launch_options_def effective_port_def getDefaultPort_def new_session_def session_json_def
  initial_world_def initial_state_def empty_fs_def demo_options_def
  demo_platform_def ref_platform_def ref_listen_def ref_kill_0_def
  ref_driver_def ref_answer_def always_def never_def until_listening_def target_closed_def

lemma demo_start:
  "startServer demo_platform (ref_driver always) demo_options (initial_world empty_fs)
   = (Return (), demo_world)"
  by (simp add: server_eval demo_world_def demo_trace_def demo_session_def)

lemma demo_start_fragile:
  "startServer demo_platform (ref_driver until_listening) demo_options (initial_world empty_fs)
   = (Return (), demo_world)"
  by (simp add: server_eval demo_world_def demo_trace_def demo_session_def)

section \<open>The status request\<close>

text \<open>
  C1, amended. In every world \<open>w\<close> of a server that \<open>startServer\<close> has started for
  the options \<open>opts\<close> (the handlers never assign \<open>state\<close>), the process is owned, and
  a \<open>GET /status\<close> is answered from \<open>getAppInfo\<close>: when the four queries of the
  driver succeed, with status 200 and the members \<open>status\<close>, \<open>appPath\<close> (the target
  path, equal to \<open>options.appPath\<close>), \<open>name\<close>, \<open>version\<close>, \<open>locale\<close> and
  \<open>path\<close>; when one of them throws, with status 500 and the error.
\<close>

theorem status_reply_after_start:
  assumes "startServer P D opts w0 = (Return (), w1)" and "state w = state w1"
  shows "\<exists>a. app (state w) = Some a
     \<and> (\<forall>i w'. getAppInfo D a (w\<lparr>headersSent := False\<rparr>) = (Return i, w') \<longrightarrow>
           handleRequest P D status_request w =
             (Return (), w'\<lparr>headersSent := True, trace := trace w' @
                [SendJson 200 (JObj [(''status'', JStr ''running''),
                   (''appPath'', JStr (options.appPath opts)),
                   (''name'', JStr (name i)), (''version'', JStr (version i)),
                   (''locale'', JStr (app_locale i)), (''path'', JStr (path i))])]\<rparr>))
     \<and> (\<forall>e w'. getAppInfo D a (w\<lparr>headersSent := False\<rparr>) = (Throw e, w') \<longrightarrow>
           handleRequest P D status_request w =
             (Return (), w'\<lparr>headersSent := True, trace := trace w' @
                [SendJson 500 (JObj [(''error'', JStr (String_of e))])]\<rparr>))"
proof -
  from startServer_Return [OF assms(1)] obtain a p where
    st: "state w1 = \<lparr>app = Some a, window = Some p, appPath = options.appPath opts\<rparr>"
    by blast
  with assms(2) have a: "app (state (w\<lparr>headersSent := False\<rparr>)) = Some a"
    and t: "ServerState.appPath (state w) = options.appPath opts"
    by simp_all
  have "handleRequest P D status_request w =
      (case getAppInfo D a (w\<lparr>headersSent := False\<rparr>) of
        (Return i, w') \<Rightarrow>
          (Return (), w'\<lparr>headersSent := True, trace := trace w' @
             [SendJson 200 (JObj [(''status'', JStr ''running''), (''appPath'', JStr (options.appPath opts)),
                (''name'', JStr (name i)), (''version'', JStr (version i)),
                (''locale'', JStr (app_locale i)), (''path'', JStr (path i))])]\<rparr>)
      | (Throw e, w') \<Rightarrow>
          (Return (), w'\<lparr>headersSent := True, trace := trace w' @
             [SendJson 500 (JObj [(''error'', JStr (String_of e))])]\<rparr>)
      | (Exit c, w') \<Rightarrow> (Exit c, w'))"
    unfolding route_status
    by (simp add: try_catch_def handleStatus_owned [OF a] t split: prod.splits outcome.splits)
  with a show ?thesis by auto
qed

text \<open>
  C1, as stated, promises status 200 to every \<open>GET /status\<close> of a started session. With
  a driver that stops answering once the server listens, the session starts, and the reply
  to the request is 500 with the driver's error.
\<close>

theorem status_500_counterexample:
  "fst (startServer demo_platform (ref_driver until_listening) demo_options (initial_world empty_fs))
     = Return ()
   \<and> last (trace (snd (handleRequest demo_platform (ref_driver until_listening) status_request
        (snd (startServer demo_platform (ref_driver until_listening) demo_options
               (initial_world empty_fs))))))
     = SendJson 500
         (JObj [(''error'', JStr ''Error: Target page, context or browser has been closed'')])"
proof -
  have "last (trace (snd (handleRequest demo_platform (ref_driver until_listening) status_request
          demo_world)))
        = SendJson 500
            (JObj [(''error'', JStr ''Error: Target page, context or browser has been closed'')])"
    by (simp add: route_status handleStatus_def demo_world_def demo_trace_def
        getAppInfo_def io_defs ref_driver_def until_listening_def target_closed_def error_body_eq)
  then show ?thesis
    unfolding demo_start_fragile by simp
qed

theorem status_reply_after_start_witness:
  "startServer demo_platform (ref_driver always) demo_options (initial_world empty_fs)
     = (Return (), demo_world)
   \<and> handleRequest demo_platform (ref_driver always) status_request demo_world =
       (Return (), demo_world\<lparr>headersSent := True, trace := demo_trace @
          [Drv_evaluate (ElectronApplication 1) GetName, Drv_evaluate (ElectronApplication 1) GetVersion,
           Drv_evaluate (ElectronApplication 1) GetLocale, Drv_evaluate (ElectronApplication 1) GetAppPath,
           SendJson 200 (JObj [(''status'', JStr ''running''), (''appPath'', JStr ''/opt/demo''),
             (''name'', JStr ''demo''), (''version'', JStr ''1.0.0''),
             (''locale'', JStr ''en-US''), (''path'', JStr ''/opt/demo'')])]\<rparr>)"
proof -
  from status_reply_after_start [OF demo_start refl] obtain a where
    a: "app (state demo_world) = Some a"
    and ok: "\<And>i w'. getAppInfo (ref_driver always) a (demo_world\<lparr>headersSent := False\<rparr>) = (Return i, w') \<Longrightarrow>
           handleRequest demo_platform (ref_driver always) status_request demo_world =
             (Return (), w'\<lparr>headersSent := True, trace := trace w' @
                [SendJson 200 (JObj [(''status'', JStr ''running''),
                   (''appPath'', JStr (options.appPath demo_options)),
                   (''name'', JStr (name i)), (''version'', JStr (version i)),
                   (''locale'', JStr (app_locale i)), (''path'', JStr (path i))])]\<rparr>)"
    by blast
  from a have a1: "a = ElectronApplication 1" by (simp add: demo_world_def)
  have "getAppInfo (ref_driver always) a (demo_world\<lparr>headersSent := False\<rparr>) =
     (Return \<lparr>name = ''demo'', version = ''1.0.0'', app_locale = ''en-US'', path = ''/opt/demo''\<rparr>,
      demo_world\<lparr>headersSent := False, trace := demo_trace @
          [Drv_evaluate (ElectronApplication 1) GetName, Drv_evaluate (ElectronApplication 1) GetVersion,
           Drv_evaluate (ElectronApplication 1) GetLocale, Drv_evaluate (ElectronApplication 1) GetAppPath]\<rparr>)"
    by (simp add: a1 getAppInfo_def io_defs ref_driver_def always_def ref_answer_def demo_world_def)
  from ok [OF this] demo_start show ?thesis
    by (simp add: demo_options_def demo_world_def)
qed

section \<open>The close request\<close>

lemma teardown_result:
  "teardown w =
   (Exit 0, w\<lparr>fs := (fs w)\<lparr>session_file := None\<rparr>, listening := False,
              trace := trace w @ [ClearSession, ServerClose, ProcessExit 0]\<rparr>)"
  by (simp add: teardown_def clearSession_io_def clearSession_result server_close_def io_defs)

lemma handleClose_cases:
  assumes "headersSent w = False"
  shows "handleClose D w =
     (case app (state w) of
        None \<Rightarrow>
          (Exit 0, w\<lparr>headersSent := True, fs := (fs w)\<lparr>session_file := None\<rparr>, listening := False,
                     trace := trace w @ [SendJson 200 closing_body, ClearSession, ServerClose,
                                         ProcessExit 0]\<rparr>)
      | Some a \<Rightarrow>
          (case app_close D (trace w @ [SendJson 200 closing_body]) a of
             Inl e \<Rightarrow>
               (Throw e, w\<lparr>headersSent := True,
                          trace := trace w @ [SendJson 200 closing_body, Drv_close a]\<rparr>)
           | Inr u \<Rightarrow>
               (Exit 0, w\<lparr>headersSent := True, fs := (fs w)\<lparr>session_file := None\<rparr>,
                          listening := False,
                          trace := trace w @ [SendJson 200 closing_body, Drv_close a, ClearSession,
                                              ServerClose, ProcessExit 0]\<rparr>)))"
  using assms
  by (simp add: handleClose_def close_owned_def teardown_result io_defs
      split: option.splits sum.splits)

lemma close_request_cases:
  "handleRequest P D close_request w =
     (case app (state w) of
        None \<Rightarrow>
          (Exit 0, w\<lparr>headersSent := True, fs := (fs w)\<lparr>session_file := None\<rparr>, listening := False,
                     trace := trace w @ [SendJson 200 closing_body, ClearSession, ServerClose,
                                         ProcessExit 0]\<rparr>)
      | Some a \<Rightarrow>
          (case app_close D (trace w @ [SendJson 200 closing_body]) a of
             Inl e \<Rightarrow>
               (Throw ERR_HTTP_HEADERS_SENT, w\<lparr>headersSent := True,
                          trace := trace w @ [SendJson 200 closing_body, Drv_close a]\<rparr>)
           | Inr u \<Rightarrow>
               (Exit 0, w\<lparr>headersSent := True, fs := (fs w)\<lparr>session_file := None\<rparr>,
                          listening := False,
                          trace := trace w @ [SendJson 200 closing_body, Drv_close a, ClearSession,
                                              ServerClose, ProcessExit 0]\<rparr>)))"
  by (simp add: route_close try_catch_def handleClose_cases sendJson_def
      split: option.splits sum.splits)



section \<open>The eval request\<close>

lemma parseBody_cases:
  "parseBody P req w =
     (if body req \<noteq> [] then
        (case JSON_parse P (body req) of Inl e \<Rightarrow> (Throw e, w) | Inr v \<Rightarrow> (Return v, w))
      else (Return (JObj []), w))"
  by (simp add: parseBody_def io_defs split: sum.splits)



lemma body_eval_request: "body (eval_request b) = b"
  by (simp add: eval_request_def)




lemma parse_script_body:
  "JSON_parse demo_platform ''{\"script\": \"return 1+1\"}''
   = Inr (JObj [(''script'', JStr ''return 1+1'')])"
  by (simp add: demo_platform_def ref_platform_def codec_eval)

text \<open>
  With a script, the script is run with the two handles and its result is the
  \<open>result\<close> member of the reply.
\<close>

lemma eval_script_example:
  "handleRequest demo_platform (ref_driver always) (eval_request ''{\"script\": \"return 1+1\"}'')
     demo_world =
   (Return (), demo_world\<lparr>headersSent := True, trace := demo_trace @
      [Drv_script (JStr ''return 1+1''),
       SendJson 200 (JObj [(''success'', JBool True), (''result'', JNum 2)])]\<rparr>)"
  by (simp add: route_eval handleEval_def parseBody_cases body_eval_request parse_script_body
      try_catch_def bind_io_def await_def sendJson_def demo_world_def ref_driver_def always_def
      object_literal_def)

text \<open>
  Outside the bodies of that statement: a body that does not parse, or that parses to \<open>null\<close>, is
  answered from the \<open>catch\<close> of \<open>handleEval\<close>, with status 500.
\<close>

lemma handleEval_unreadable_body:
  assumes "app (state w) = Some a" and "window (state w) = Some p" and "b \<noteq> []"
    and "JSON_parse P b = Inl e \<or> JSON_parse P b = Inr JNull"
  shows "\<exists>m. handleRequest P D (eval_request b) w =
     (Return (), w\<lparr>headersSent := True, trace := trace w @
        [SendJson 500 (JObj [(''error'', JStr m)])]\<rparr>)"
  using assms
  by (auto simp: route_eval handleEval_def parseBody_cases body_eval_request try_catch_def
      bind_io_def sendJson_def throw_def error_body_eq)

section \<open>The client\<close>

lemma isSessionAlive_descriptor:
  "isSessionAlive P (session_json d) = (process_kill_0 P (Some (JNum (pid d))) = Inr ())"
  by (simp add: isSessionAlive_def session_json_def split: sum.splits)

lemma truthy_session_json: "truthy (session_json d)"
  by (simp add: session_json_def)

lemma run_command_no_session:
  assumes "getActiveSession P f = Inl e"
  shows "run_command P net c f = (Inl e, [])"
  using assms
  by (cases c) (simp_all add: getStatus_def evalScript_def takeScreenshot_def closeApp_def)

text \<open>
  C5. With no descriptor file every command of the client fails with the message of
  \<open>no_session_message\<close>; with a descriptor whose process \<open>process.kill(pid, 0)\<close>
  does not find, every command fails with the message of \<open>not_alive_message\<close>; no call
  is made on the network in either case; and the two messages differ.
\<close>

theorem client_fails_before_connecting:
  "(session_file f = None \<longrightarrow> (\<forall>c. run_command P net c f = (Inl no_session_error, [])))
   \<and> (\<forall>d e. loadSession P f = Inr (session_json d)
          \<and> process_kill_0 P (Some (JNum (pid d))) = Inl e
        \<longrightarrow> (\<forall>c. run_command P net c f = (Inl not_alive_error, [])))
   \<and> message no_session_error \<noteq> message not_alive_error"
proof (intro conjI impI allI)
  fix c assume "session_file f = None"
  then have "getActiveSession P f = Inl no_session_error"
    by (simp add: getActiveSession_def loadSession_missing no_session_error_def)
  then show "run_command P net c f = (Inl no_session_error, [])"
    by (rule run_command_no_session)
next
  fix d e c
  assume "loadSession P f = Inr (session_json d) \<and> process_kill_0 P (Some (JNum (pid d))) = Inl e"
  then have "getActiveSession P f = Inl not_alive_error"
    by (simp add: getActiveSession_def truthy_session_json isSessionAlive_descriptor
        not_alive_error_def)
  then show "run_command P net c f = (Inl not_alive_error, [])"
    by (rule run_command_no_session)
next
  show "message no_session_error \<noteq> message not_alive_error"
    by (simp add: no_session_error_def not_alive_error_def no_session_message_def
        not_alive_message_def)
qed

text \<open>
  \<open>getActiveSession\<close> tests the loaded value for truthiness: a file whose contents parse
  to \<open>null\<close>, \<open>false\<close>, zero or the empty string is no session to the client.
\<close>

lemma falsy_descriptor_is_no_session:
  assumes "loadSession P f = Inr v" and "\<not> truthy v"
  shows "getActiveSession P f = Inl no_session_error"
  using assms by (simp add: getActiveSession_def no_session_error_def)

lemma load_saved_on_dead_platform:
  "loadSession dead_platform saved_fs = Inr (session_json demo_session)"
  using demo_round_trip
  by (simp add: saved_fs_def loadSession_present dead_platform_def demo_platform_def
      ref_platform_def)

theorem client_fails_before_connecting_witness:
  "session_file empty_fs = None
   \<and> run_command demo_platform unreachable Status empty_fs = (Inl no_session_error, [])
   \<and> run_command demo_platform unreachable (Eval ''return 1+1'') empty_fs
       = (Inl no_session_error, [])
   \<and> loadSession dead_platform saved_fs = Inr (session_json demo_session)
   \<and> process_kill_0 dead_platform (Some (JNum (pid demo_session)))
       = Inl (JsError ''Error'' ''kill ESRCH'')
   \<and> run_command dead_platform unreachable Close saved_fs = (Inl not_alive_error, [])"
proof -
  have k: "process_kill_0 dead_platform (Some (JNum (pid demo_session)))
       = Inl (JsError ''Error'' ''kill ESRCH'')"
    by (simp add: dead_platform_def ref_platform_def ref_kill_0_def demo_session_def)
  have e: "session_file empty_fs = None"
    by (simp add: empty_fs_def)
  from client_fails_before_connecting [of empty_fs demo_platform unreachable] e
  have 1: "\<forall>c. run_command demo_platform unreachable c empty_fs = (Inl no_session_error, [])"
    by blast
  from client_fails_before_connecting [of saved_fs dead_platform unreachable]
    load_saved_on_dead_platform k
  have 2: "\<forall>c. run_command dead_platform unreachable c saved_fs = (Inl not_alive_error, [])"
    by blast
  from 1 2 e k load_saved_on_dead_platform show ?thesis
    by blast
qed

section \<open>The process identifier in the descriptor\<close>

text \<open>
  C9. The descriptor that a successful \<open>startServer\<close> saves is made of the options, the
  clock and \<open>process.pid\<close> of the server itself: nothing of the driver or of the launched
  application enters it. Its \<open>pid\<close> member is the server's process identifier, and the
  liveness probe of a client on it is \<open>process.kill\<close> on that identifier.
\<close>

theorem descriptor_pid_is_server_pid:
  assumes "startServer P D opts w = (Return (), w')"
  shows "session_file (fs w') = Some (JSON_stringify_2 P (session_json (new_session P opts)))
     \<and> last (trace w') = SaveSession (session_json (new_session P opts))
     \<and> get_prop (session_json (new_session P opts)) ''pid'' = Inr (Some (JNum (process_pid P)))
     \<and> (\<forall>Q. isSessionAlive Q (session_json (new_session P opts))
              = (process_kill_0 Q (Some (JNum (process_pid P))) = Inr ()))"
proof -
  from startServer_Return [OF assms] obtain a p where
    f: "fs w' = (fs w)\<lparr>session_dir := True,
          session_file := Some (JSON_stringify_2 P (session_json (new_session P opts)))\<rparr>"
    and t: "trace w' = trace w @ [Drv_launch (launch_options opts), Drv_firstWindow a,
          Drv_waitForLoadState p, Drv_evaluate a GetName, Drv_evaluate a GetVersion,
          Drv_evaluate a GetLocale, Drv_evaluate a GetAppPath,
          Listen (effective_port opts), SaveSession (session_json (new_session P opts))]"
    by blast
  have p: "pid (new_session P opts) = process_pid P"
    by (simp add: new_session_def)
  have g: "get_prop (session_json (new_session P opts)) ''pid''
      = Inr (Some (JNum (process_pid P)))"
    by (simp add: session_json_def p)
  from f t g show ?thesis
    by (simp add: isSessionAlive_descriptor p)
qed

theorem descriptor_pid_is_server_pid_witness:
  "startServer demo_platform (ref_driver always) demo_options (initial_world empty_fs)
     = (Return (), demo_world)
   \<and> process_pid demo_platform = 4242
   \<and> last (trace demo_world) = SaveSession (session_json demo_session)
   \<and> get_prop (session_json demo_session) ''pid'' = Inr (Some (JNum 4242))
   \<and> isSessionAlive dead_platform (session_json demo_session)
       = (process_kill_0 dead_platform (Some (JNum 4242)) = Inr ())"
proof -
  have n: "new_session demo_platform demo_options = demo_session"
    by (simp add: new_session_def demo_session_def demo_platform_def ref_platform_def
        demo_options_def effective_port_def)
  have p: "process_pid demo_platform = 4242"
    by (simp add: demo_platform_def ref_platform_def)
  from descriptor_pid_is_server_pid [OF demo_start] demo_start show ?thesis
    by (simp add: n p)
qed

section \<open>Starting a session\<close>

lemma kept_refl: "kept w w"
  by (simp add: kept_def)

lemma kept_trans: "kept w w' \<Longrightarrow> kept w' w'' \<Longrightarrow> kept w w''"
  by (auto simp: kept_def)

lemma kept_headers: "kept (w\<lparr>headersSent := b\<rparr>) w' \<Longrightarrow> kept w w'"
  by (simp add: kept_def)

lemma sendJson_kept: "sendJson n b w = (r, w') \<Longrightarrow> kept w w'"
  by (auto simp: sendJson_def kept_def split: if_splits)

lemma getAppInfo_kept: "getAppInfo D a w = (r, w') \<Longrightarrow> kept w w'"
  by (auto dest!: getAppInfo_frame simp: kept_def)

lemma keepsD: "keeps m \<Longrightarrow> m w = (r, w') \<Longrightarrow> kept w w'"
  by (simp add: keeps_def)

lemma keeps_ret: "keeps (ret x)"
  by (simp add: keeps_def ret_def kept_refl)

lemma keeps_throw: "keeps (throw e)"
  by (simp add: keeps_def throw_def kept_refl)

lemma keeps_sendJson: "keeps (sendJson n b)"
  by (auto simp: keeps_def dest: sendJson_kept)

lemma keeps_await: "keeps (await c f)"
  by (auto simp: keeps_def await_def kept_def split: sum.splits)

lemma keeps_getAppInfo: "keeps (getAppInfo D a)"
  by (auto simp: keeps_def dest: getAppInfo_kept)

lemma keeps_parseBody: "keeps (parseBody P req)"
  by (auto simp: keeps_def parseBody_cases kept_refl split: if_splits sum.splits)

lemma keeps_teardown: "keeps teardown"
  by (simp add: keeps_def teardown_result kept_def)

lemma keeps_bind:
  assumes "keeps m" and "\<And>x. keeps (f x)"
  shows "keeps (bind_io m f)"
  unfolding keeps_def
proof (intro allI impI)
  fix w r w'
  assume b: "bind_io m f w = (r, w')"
  obtain r1 w1 where m: "m w = (r1, w1)"
    by (cases "m w")
  with assms(1) have k: "kept w w1"
    by (simp add: keeps_def)
  show "kept w w'"
  proof (cases r1)
    case (Return x)
    with b m have "f x w1 = (r, w')"
      by (simp add: bind_io_def)
    with assms(2) have "kept w1 w'"
      by (simp add: keeps_def)
    with k show ?thesis by (rule kept_trans)
  next
    case (Throw e)
    with b m k show ?thesis by (simp add: bind_io_def)
  next
    case (Exit c)
    with b m k show ?thesis by (simp add: bind_io_def)
  qed
qed

lemma keeps_try:
  assumes "keeps m" and "\<And>e. keeps (h e)"
  shows "keeps (try_catch m h)"
  unfolding keeps_def
proof (intro allI impI)
  fix w r w'
  assume b: "try_catch m h w = (r, w')"
  obtain r1 w1 where m: "m w = (r1, w1)"
    by (cases "m w")
  with assms(1) have k: "kept w w1"
    by (simp add: keeps_def)
  show "kept w w'"
  proof (cases r1)
    case (Return x)
    with b m k show ?thesis by (simp add: try_catch_def)
  next
    case (Throw e)
    with b m have "h e w1 = (r, w')"
      by (simp add: try_catch_def)
    with assms(2) have "kept w1 w'"
      by (simp add: keeps_def)
    with k show ?thesis by (rule kept_trans)
  next
    case (Exit c)
    with b m k show ?thesis by (simp add: try_catch_def)
  qed
qed

lemma keeps_sendJson_dep: "keeps (\<lambda>w. sendJson n (b w) w)"
  by (auto simp: keeps_def dest: sendJson_kept)

lemma keeps_close_owned: "keeps (close_owned D)"
  unfolding keeps_def close_owned_def
  by (auto simp: kept_refl split: option.splits dest: keepsD [OF keeps_await])

lemma keeps_handleStatus: "keeps (handleStatus D)"
  unfolding keeps_def handleStatus_def
  by (auto split: option.splits
      dest: keepsD [OF keeps_sendJson]
        keepsD [OF keeps_try [OF keeps_bind [OF keeps_getAppInfo keeps_sendJson_dep] keeps_sendJson]])

lemma keeps_run_script:
  "keeps (\<lambda>w'. bind_io (await c (f w')) g w')" if "\<And>x. keeps (g x)"
  unfolding keeps_def
proof (intro allI impI)
  fix w r w'
  assume "bind_io (await c (f w)) g w = (r, w')"
  with keeps_bind [OF keeps_await that, of c "f w"] show "kept w w'"
    by (rule keepsD)
qed

lemma keeps_handleEval: "keeps (handleEval P D req)"
proof -
  have k: "keeps (bind_io (parseBody P req) (\<lambda>b.
                 (case get_prop b ''script'' of
                    Inl e \<Rightarrow> throw e
                  | Inr None \<Rightarrow> sendJson 400 (error_body ''Missing script parameter'')
                  | Inr (Some script) \<Rightarrow>
                      if \<not> truthy script then
                        sendJson 400 (error_body ''Missing script parameter'')
                      else
                        (\<lambda>w'. bind_io
                                (await (Drv_script script)
                                   (\<lambda>h. run_script D h script (app (state w')) (window (state w'))))
                                (\<lambda>result.
                                   sendJson 200
                                     (object_literal
                                        ((''success'', JBool True) #
                                         (case result of None \<Rightarrow> [] | Some r \<Rightarrow> [(''result'', r)]))))
                                w'))))"
    by (intro keeps_bind keeps_parseBody)
      (auto split: sum.splits option.splits intro!: keeps_throw keeps_sendJson keeps_run_script)
  have t: "keeps (try_catch m (\<lambda>e. sendJson 500 (error_body (String_of e))))" if "keeps m"
    for m :: "unit io"
    using that by (rule keeps_try) (rule keeps_sendJson)
  show ?thesis
    unfolding keeps_def handleEval_def
    by (auto split: if_splits dest: keepsD [OF keeps_sendJson] keepsD [OF t [OF k]])
qed

lemma keeps_screenshot_call:
  "keeps (\<lambda>w'. case window (state w') of
                  None \<Rightarrow> throw e w'
                | Some p \<Rightarrow> bind_io (await (c p) (f p)) g w')" if "\<And>x. keeps (g x)"
  unfolding keeps_def
proof (intro allI impI)
  fix w r w'
  assume a: "(case window (state w) of None \<Rightarrow> throw e w
              | Some p \<Rightarrow> bind_io (await (c p) (f p)) g w) = (r, w')"
  show "kept w w'"
  proof (cases "window (state w)")
    case None
    with a show ?thesis by (simp add: throw_def kept_refl)
  next
    case (Some p)
    with a have "bind_io (await (c p) (f p)) g w = (r, w')" by simp
    with keeps_bind [OF keeps_await that, of "c p" "f p"] show ?thesis
      by (rule keepsD)
  qed
qed

lemma keeps_handleScreenshot: "keeps (handleScreenshot P D req)"
proof -
  have k: "keeps (bind_io (parseBody P req) (\<lambda>b.
                 (case get_prop b ''output'' of
                    Inl e \<Rightarrow> throw e
                  | Inr None \<Rightarrow> sendJson 400 (error_body ''Missing output parameter'')
                  | Inr (Some outputPath) \<Rightarrow>
                      if \<not> truthy outputPath then
                        sendJson 400 (error_body ''Missing output parameter'')
                      else
                        (\<lambda>w'. case window (state w') of
                                None \<Rightarrow>
                                  throw (JsError ''TypeError''
                                    ''Cannot read properties of null (reading screenshot)'') w'
                              | Some p \<Rightarrow>
                                  bind_io
                                    (await (Drv_screenshot p outputPath)
                                       (\<lambda>h. screenshot D h p outputPath))
                                    (\<lambda>u. sendJson 200
                                       (object_literal
                                          [(''success'', JBool True), (''path'', outputPath)]))
                                    w'))))"
    by (intro keeps_bind keeps_parseBody)
      (auto split: sum.splits option.splits
        intro!: keeps_throw keeps_sendJson keeps_screenshot_call)
  have t: "keeps (try_catch m (\<lambda>e. sendJson 500 (error_body (String_of e))))" if "keeps m"
    for m :: "unit io"
    using that by (rule keeps_try) (rule keeps_sendJson)
  show ?thesis
    unfolding keeps_def handleScreenshot_def
    by (auto split: if_splits dest: keepsD [OF keeps_sendJson] keepsD [OF t [OF k]])
qed

lemma keeps_handleClose: "keeps (handleClose D)"
  unfolding handleClose_def
  by (intro keeps_bind keeps_sendJson keeps_close_owned keeps_teardown)

lemma keeps_handleRequest: "keeps (handleRequest P D req)"
proof -
  let ?u = "if url req \<noteq> [] then url req else ''/''"
  let ?h = "(if req_method req = ''GET'' \<and> ?u = ''/status'' then handleStatus D
             else if req_method req = ''POST'' \<and> ?u = ''/eval'' then handleEval P D req
             else if req_method req = ''POST'' \<and> ?u = ''/screenshot'' then handleScreenshot P D req
             else if req_method req = ''POST'' \<and> ?u = ''/close'' then handleClose D
             else sendJson 404 (error_body ''Not found''))"
  have h: "keeps ?h"
    by (simp add: keeps_handleStatus keeps_handleEval keeps_handleScreenshot keeps_handleClose
        keeps_sendJson)
  have t: "keeps (try_catch ?h (\<lambda>e. sendJson 500 (error_body (String_of e))))"
    using h by (rule keeps_try) (rule keeps_sendJson)
  show ?thesis
    unfolding keeps_def
  proof (intro allI impI)
    fix w r w'
    assume "handleRequest P D req w = (r, w')"
    then have "try_catch ?h (\<lambda>e. sendJson 500 (error_body (String_of e)))
        (w\<lparr>headersSent := False\<rparr>) = (r, w')"
      by (simp add: handleRequest_def Let_def)
    with t have "kept (w\<lparr>headersSent := False\<rparr>) w'"
      by (rule keepsD)
    then show "kept w w'"
      by (rule kept_headers)
  qed
qed

lemma keeps_serve: "keeps (serve P D reqs)"
proof (induction reqs)
  case Nil
  show ?case by (simp add: keeps_def kept_refl)
next
  case (Cons req reqs)
  show ?case
    unfolding keeps_def
  proof (intro allI impI)
    fix w r w'
    assume s: "serve P D (req # reqs) w = (r, w')"
    obtain r1 w1 where h: "handleRequest P D req w = (r1, w1)"
      by (cases "handleRequest P D req w")
    with keeps_handleRequest have k: "kept w w1"
      by (rule keepsD)
    show "kept w w'"
    proof (cases r1)
      case (Return u)
      with s h have "serve P D reqs w1 = (r, w')" by simp
      with Cons.IH have "kept w1 w'" by (rule keepsD)
      with k show ?thesis by (rule kept_trans)
    next
      case (Throw e)
      with s h k show ?thesis by simp
    next
      case (Exit c)
      with s h k show ?thesis by simp
    qed
  qed
qed

lemma new_effects_append: "trace w' = trace w @ t \<Longrightarrow> new_effects w w' = t"
  by (simp add: new_effects_def)

lemma startServer_not_Return:
  assumes "startServer P D opts w = (r, w')" and "r \<noteq> Return ()"
  shows "\<exists>e t. r = Throw e \<and> fs w' = fs w \<and> listening w' = listening w
     \<and> trace w' = trace w @ Drv_launch (launch_options opts) # t \<and> list_all is_driver_call t"
proof -
  obtain r1 w1 where l: "startServer_launch D opts w = (r1, w1)"
    by (cases "startServer_launch D opts w")
  from startServer_launch_frame [OF l] obtain t where
    f: "fs w1 = fs w" "listening w1 = listening w"
    and t: "trace w1 = trace w @ Drv_launch (launch_options opts) # t" "list_all is_driver_call t"
    by blast
  show ?thesis
  proof (cases r1)
    case (Return u)
    with assms l have "server_listen P opts w1 = (r, w')"
      by (simp add: startServer_def bind_io_def)
    with assms(2) f t show ?thesis
      by (auto simp: server_listen_cases split: sum.splits)
  next
    case (Throw e)
    with assms l f t show ?thesis
      by (auto simp: startServer_def bind_io_def)
  next
    case (Exit c)
    with startServer_launch_frame [OF l, of c] show ?thesis by simp
  qed
qed

lemma startServer_launch_failure:
  assumes "launchElectron D (trace w) (launch_options opts) = Inl e"
  shows "startServer P D opts w =
     (Throw e, w\<lparr>trace := trace w @ [Drv_launch (launch_options opts)]\<rparr>)"
  using startServer_launch_Throw [OF assms] by (simp add: startServer_def bind_io_def)

lemma open_action_cases:
  assumes "open_action P D g opts w = (r, w')"
  shows "(r = Return () \<and> startServer P D opts w = (r, w'))
     \<or> (r = Exit 1 \<and> state w' = state w \<and> fs w' = fs w \<and> listening w' = listening w
          \<and> (\<exists>t. trace w' = trace w @ t @ [ProcessExit 1] \<and> list_all is_driver_call t))
     \<or> (r = Exit 1 \<and> fs w' = fs w \<and> listening w' = listening w
          \<and> (\<exists>t. trace w' = trace w @ Drv_launch (launch_options opts) # t @ [ProcessExit 1]
                 \<and> list_all is_driver_call t))"
proof -
  obtain ex where ex: "loadSession P (fs w) = Inr ex"
    using loadSession_total by blast
  show ?thesis
  proof (cases "(truthy ex \<and> isSessionAlive P ex) \<or> \<not> g")
    case True
    with assms ex have "r = Exit 1" and "w' = w\<lparr>trace := trace w @ [ProcessExit 1]\<rparr>"
      by (auto simp: open_action_def process_exit_def split: if_splits)
    then have "r = Exit 1 \<and> state w' = state w \<and> fs w' = fs w \<and> listening w' = listening w
          \<and> trace w' = trace w @ [] @ [ProcessExit 1] \<and> list_all is_driver_call []"
      by simp
    then show ?thesis by blast
  next
    case False
    with assms ex have t: "try_catch (startServer P D opts) (\<lambda>e. process_exit 1) w = (r, w')"
      by (auto simp: open_action_def split: if_splits)
    obtain r1 w1 where s: "startServer P D opts w = (r1, w1)"
      by (cases "startServer P D opts w")
    show ?thesis
    proof (cases "r1 = Return ()")
      case True
      with t s show ?thesis by (simp add: try_catch_def)
    next
      case False
      from startServer_not_Return [OF s False] obtain e t' where
        r1: "r1 = Throw e" and f: "fs w1 = fs w" "listening w1 = listening w"
        and tr: "trace w1 = trace w @ Drv_launch (launch_options opts) # t'"
          "list_all is_driver_call t'"
        by blast
      from t s r1 have "r = Exit 1" and "w' = w1\<lparr>trace := trace w1 @ [ProcessExit 1]\<rparr>"
        by (simp_all add: try_catch_def process_exit_def)
      with f tr show ?thesis by auto
    qed
  qed
qed

lemma no_save_among_driver_calls:
  "list_all is_driver_call t \<Longrightarrow> SaveSession s \<notin> set t"
  by (auto simp: list_all_iff)

lemma open_action_written:
  assumes "open_action P D g opts w = (r, w')"
    and "(\<exists>s. SaveSession s \<in> set (new_effects w w')) \<or> fs w' \<noteq> fs w"
  shows "\<exists>a pre. launchElectron D (trace w) (launch_options opts) = Inr a
       \<and> app (state w') = Some a \<and> listening w'
       \<and> new_effects w w' = pre @ [Listen (effective_port opts),
                                    SaveSession (session_json (new_session P opts))]
       \<and> list_all is_driver_call pre"
proof -
  from open_action_cases [OF assms(1)] consider
    (started) "r = Return ()" "startServer P D opts w = (Return (), w')"
    | (stopped) t where "fs w' = fs w" "trace w' = trace w @ t @ [ProcessExit 1]"
        "list_all is_driver_call t"
    | (failed) t where "fs w' = fs w"
        "trace w' = trace w @ Drv_launch (launch_options opts) # t @ [ProcessExit 1]"
        "list_all is_driver_call t"
    by blast
  then show ?thesis
  proof cases
    case started
    from startServer_Return [OF started(2)] obtain a p where
      a: "launchElectron D (trace w) (launch_options opts) = Inr a"
      and st: "state w' = \<lparr>app = Some a, window = Some p, appPath = options.appPath opts\<rparr>"
      and l: "listening w'"
      and tr: "trace w' = trace w @ [Drv_launch (launch_options opts), Drv_firstWindow a,
                Drv_waitForLoadState p, Drv_evaluate a GetName, Drv_evaluate a GetVersion,
                Drv_evaluate a GetLocale, Drv_evaluate a GetAppPath,
                Listen (effective_port opts), SaveSession (session_json (new_session P opts))]"
      by blast
    let ?pre = "[Drv_launch (launch_options opts), Drv_firstWindow a,
                Drv_waitForLoadState p, Drv_evaluate a GetName, Drv_evaluate a GetVersion,
                Drv_evaluate a GetLocale, Drv_evaluate a GetAppPath]"
    from tr have "new_effects w w' = ?pre @ [Listen (effective_port opts),
        SaveSession (session_json (new_session P opts))]"
      by (simp add: new_effects_def)
    moreover have "list_all is_driver_call ?pre" by simp
    moreover from st have "app (state w') = Some a" by simp
    ultimately show ?thesis using a l by blast
  next
    case stopped
    from stopped(2) have "new_effects w w' = t @ [ProcessExit 1]"
      by (simp add: new_effects_def)
    with stopped(1,3) assms(2) show ?thesis
      by (auto dest: no_save_among_driver_calls)
  next
    case failed
    from failed(2) have "new_effects w w' = Drv_launch (launch_options opts) # t @ [ProcessExit 1]"
      by (simp add: new_effects_def)
    with failed(1,3) assms(2) show ?thesis
      by (auto dest: no_save_among_driver_calls)
  qed
qed

lemma open_action_launch_failure:
  assumes "open_action P D g opts w = (r, w')"
    and "launchElectron D (trace w) (launch_options opts) = Inl e"
  shows "r = Exit 1 \<and> fs w' = fs w \<and> (\<forall>s. SaveSession s \<notin> set (new_effects w w'))"
proof -
  have n: "\<not> ((\<exists>s. SaveSession s \<in> set (new_effects w w')) \<or> fs w' \<noteq> fs w)"
  proof
    assume "(\<exists>s. SaveSession s \<in> set (new_effects w w')) \<or> fs w' \<noteq> fs w"
    from open_action_written [OF assms(1) this] assms(2) show False by auto
  qed
  from open_action_cases [OF assms(1)] have "r = Exit 1 \<or> startServer P D opts w = (Return (), w')"
    by auto
  moreover have "startServer P D opts w \<noteq> (Return (), w')"
    using startServer_launch_failure [OF assms(2), of P] by simp
  ultimately show ?thesis using n by blast
qed

lemma session_descriptor_owned:
  assumes "session_file (fs w) = None" and "session P D g opts reqs w = (r', w')"
    and "session_file (fs w') \<noteq> None"
  shows "\<exists>a. launchElectron D (trace w) (launch_options opts) = Inr a \<and> app (state w') = Some a"
proof -
  obtain r1 w1 where o: "open_action P D g opts w = (r1, w1)"
    by (cases "open_action P D g opts w")
  show ?thesis
  proof (cases "r1 = Return ()")
    case True
    with o assms(2) have s: "serve P D reqs w1 = (r', w')"
      by (simp add: session_def bind_io_def)
    with keeps_serve have "kept w1 w'" by (rule keepsD)
    then have st: "state w' = state w1" by (simp add: kept_def)
    from open_action_cases [OF o] True have "startServer P D opts w = (Return (), w1)"
      by auto
    from startServer_Return [OF this] st show ?thesis by auto
  next
    case False
    with open_action_cases [OF o] have x: "r1 = Exit 1" and f: "fs w1 = fs w"
      by auto
    from o x assms(2) have "w' = w1"
      by (simp add: session_def bind_io_def)
    with f assms(1,3) show ?thesis by simp
  qed
qed

text \<open>
  C2. In every run of the \<open>open\<close> action, a descriptor is saved, or the store changed
  at all, only in a run where the launch succeeded, the process is owned and the server
  listens, and then the save is the last effect, right after the port was bound. When the
  launch fails, the action ends in \<open>process.exit(1)\<close> with the store as it was and no
  save among its effects. And from a store without a descriptor, after the action and any
  requests served, a descriptor in the store means that the launch succeeded and the
  process is owned.
\<close>

theorem descriptor_written_only_when_serving:
  "(\<forall>r w'. open_action P D g opts w = (r, w') \<longrightarrow>
      (((\<exists>s. SaveSession s \<in> set (new_effects w w')) \<or> fs w' \<noteq> fs w) \<longrightarrow>
         (\<exists>a pre. launchElectron D (trace w) (launch_options opts) = Inr a
            \<and> app (state w') = Some a \<and> listening w'
            \<and> new_effects w w' = pre @ [Listen (effective_port opts),
                                         SaveSession (session_json (new_session P opts))]
            \<and> list_all is_driver_call pre))
      \<and> ((\<exists>e. launchElectron D (trace w) (launch_options opts) = Inl e) \<longrightarrow>
            r = Exit 1 \<and> fs w' = fs w \<and> (\<forall>s. SaveSession s \<notin> set (new_effects w w'))))
   \<and> (\<forall>reqs r' w'. session_file (fs w) = None \<and> session P D g opts reqs w = (r', w')
          \<and> session_file (fs w') \<noteq> None \<longrightarrow>
        (\<exists>a. launchElectron D (trace w) (launch_options opts) = Inr a \<and> app (state w') = Some a))"
  using open_action_written [of P D g opts w] open_action_launch_failure [of P D g opts w]
    session_descriptor_owned [of w P D g opts]
  by blast

lemma demo_open:
  "open_action demo_platform (ref_driver always) True demo_options (initial_world empty_fs)
   = (Return (), demo_world)"
proof -
  have "loadSession demo_platform (fs (initial_world empty_fs)) = Inr JNull"
    by (simp add: loadSession_missing initial_world_def empty_fs_def)
  then show ?thesis
    by (simp add: open_action_def try_catch_def demo_start)
qed

lemma demo_open_never:
  "open_action demo_platform (ref_driver never) True demo_options (initial_world empty_fs)
   = (Exit 1, (initial_world empty_fs)\<lparr>trace :=
        [Drv_launch (launch_options demo_options), ProcessExit 1]\<rparr>)"
proof -
  have l: "loadSession demo_platform (fs (initial_world empty_fs)) = Inr JNull"
    by (simp add: loadSession_missing initial_world_def empty_fs_def)
  have "launchElectron (ref_driver never) (trace (initial_world empty_fs))
      (launch_options demo_options) = Inl target_closed"
    by (simp add: ref_driver_def never_def)
  from startServer_launch_failure [OF this, of demo_platform] l show ?thesis
    by (simp add: open_action_def try_catch_def process_exit_def initial_world_def)
qed

lemma demo_status:
  "handleRequest demo_platform (ref_driver always) status_request demo_world =
     (Return (), demo_world\<lparr>headersSent := True, trace := demo_trace @
        [Drv_evaluate (ElectronApplication 1) GetName, Drv_evaluate (ElectronApplication 1) GetVersion,
         Drv_evaluate (ElectronApplication 1) GetLocale, Drv_evaluate (ElectronApplication 1) GetAppPath,
         SendJson 200 (JObj [(''status'', JStr ''running''), (''appPath'', JStr ''/opt/demo''),
           (''name'', JStr ''demo''), (''version'', JStr ''1.0.0''),
           (''locale'', JStr ''en-US''), (''path'', JStr ''/opt/demo'')])]\<rparr>)"
  by (simp add: route_status handleStatus_def demo_world_def getAppInfo_def io_defs
      ref_driver_def always_def ref_answer_def object_literal_def info_members_def)

theorem descriptor_written_only_when_serving_witness:
  "open_action demo_platform (ref_driver always) True demo_options (initial_world empty_fs)
     = (Return (), demo_world)
   \<and> SaveSession (session_json demo_session) \<in> set (new_effects (initial_world empty_fs) demo_world)
   \<and> (\<exists>a. launchElectron (ref_driver always) [] (launch_options demo_options) = Inr a
          \<and> app (state demo_world) = Some a)
   \<and> listening demo_world
   \<and> launchElectron (ref_driver never) [] (launch_options demo_options) = Inl target_closed
   \<and> fst (open_action demo_platform (ref_driver never) True demo_options (initial_world empty_fs))
       = Exit 1
   \<and> fs (snd (open_action demo_platform (ref_driver never) True demo_options
        (initial_world empty_fs))) = empty_fs
   \<and> session_file (fs (initial_world empty_fs)) = None
   \<and> session_file (fs (snd (session demo_platform (ref_driver always) True demo_options
        [status_request] (initial_world empty_fs)))) \<noteq> None
   \<and> app (state (snd (session demo_platform (ref_driver always) True demo_options
        [status_request] (initial_world empty_fs)))) \<noteq> None"
proof -
  let ?w = "initial_world empty_fs"
  note T = descriptor_written_only_when_serving [of demo_platform _ True demo_options ?w]
  have tw: "trace ?w = []" and fw: "fs ?w = empty_fs" and nf: "session_file (fs ?w) = None"
    by (simp_all add: initial_world_def empty_fs_def)
  have s: "SaveSession (session_json demo_session) \<in> set (new_effects ?w demo_world)"
    by (simp add: new_effects_def tw demo_world_def demo_trace_def)
  from T [of "ref_driver always"] demo_open s
  have 1: "\<exists>a. launchElectron (ref_driver always) [] (launch_options demo_options) = Inr a
          \<and> app (state demo_world) = Some a" and 2: "listening demo_world"
    unfolding tw by blast+
  have l: "launchElectron (ref_driver never) [] (launch_options demo_options) = Inl target_closed"
    by (simp add: ref_driver_def never_def)
  obtain r w' where o: "open_action demo_platform (ref_driver never) True demo_options ?w = (r, w')"
    by (cases "open_action demo_platform (ref_driver never) True demo_options ?w")
  from T [of "ref_driver never"] o l have "r = Exit 1" and "fs w' = fs ?w"
    unfolding tw by blast+
  with o fw have 3: "fst (open_action demo_platform (ref_driver never) True demo_options ?w) = Exit 1"
    and 4: "fs (snd (open_action demo_platform (ref_driver never) True demo_options ?w)) = empty_fs"
    by simp_all
  obtain r'' w'' where
    ss: "session demo_platform (ref_driver always) True demo_options [status_request] ?w = (r'', w'')"
    by (cases "session demo_platform (ref_driver always) True demo_options [status_request] ?w")
  then have "fs w'' = fs demo_world"
    by (auto simp: session_def bind_io_def demo_open demo_status)
  then have 5: "session_file (fs w'') \<noteq> None"
    by (simp add: demo_world_def)
  from T [of "ref_driver always"] nf ss 5 have "\<exists>a. app (state w'') = Some a"
    by blast
  with ss 5 have 6: "session_file (fs (snd (session demo_platform (ref_driver always) True
      demo_options [status_request] ?w))) \<noteq> None"
    and 7: "app (state (snd (session demo_platform (ref_driver always) True demo_options
        [status_request] ?w))) \<noteq> None"
    by auto
  from demo_open s 1 2 l 3 4 nf 6 7 show ?thesis by blast
qed

section \<open>Closing once\<close>

lemma finish_result:
  "finish s w =
   s\<lparr>pw := w\<lparr>fs := (fs w)\<lparr>session_file := None\<rparr>, listening := False,
               trace := trace w @ [ClearSession, ServerClose, ProcessExit 0]\<rparr>,
     exited := Some 0\<rparr>"
  by (simp add: finish_def teardown_result)











lemma fire_after_exit: "exited s \<noteq> None \<Longrightarrow> fire D t s = s"
  by (simp add: fire_def)

text \<open>
  The two steps of a closing routine, with no other trigger between them, are the routine
  as the source has it.
\<close>

lemma close_request_in_two_steps:
  assumes "listening w"
  shows "pw (run_triggers D [CloseRequest, CloseSettled] (serving w))
           = snd (handleRequest P D close_request w)
     \<and> exited (run_triggers D [CloseRequest, CloseSettled] (serving w))
           = (case fst (handleRequest P D close_request w) of Exit c \<Rightarrow> Some c | r \<Rightarrow> None)
     \<and> unhandled (run_triggers D [CloseRequest, CloseSettled] (serving w))
           = (case fst (handleRequest P D close_request w) of Throw e \<Rightarrow> [e] | r \<Rightarrow> [])"
  using assms
  by (simp add: run_triggers_def fire_def serving_def sendJson_def begin_close_def settle_def
      finish_result close_request_cases split: option.splits sum.splits)

lemma cleanup_cases:
  "cleanup D w =
     (case app (state w) of
        None \<Rightarrow>
          (Exit 0, w\<lparr>fs := (fs w)\<lparr>session_file := None\<rparr>, listening := False,
                     trace := trace w @ [ClearSession, ServerClose, ProcessExit 0]\<rparr>)
      | Some a \<Rightarrow>
          (case app_close D (trace w) a of
             Inl e \<Rightarrow> (Throw e, w\<lparr>trace := trace w @ [Drv_close a]\<rparr>)
           | Inr u \<Rightarrow>
               (Exit 0, w\<lparr>fs := (fs w)\<lparr>session_file := None\<rparr>, listening := False,
                          trace := trace w @ [Drv_close a, ClearSession, ServerClose,
                                              ProcessExit 0]\<rparr>)))"
  by (simp add: cleanup_def close_owned_def teardown_result io_defs split: option.splits sum.splits)

lemma signal_in_two_steps:
  "pw (run_triggers D [TermSignal, CloseSettled] (serving w)) = snd (cleanup D w)
   \<and> exited (run_triggers D [TermSignal, CloseSettled] (serving w))
       = (case fst (cleanup D w) of Exit c \<Rightarrow> Some c | r \<Rightarrow> None)
   \<and> unhandled (run_triggers D [TermSignal, CloseSettled] (serving w))
       = (case fst (cleanup D w) of Throw e \<Rightarrow> [e] | r \<Rightarrow> [])"
  by (simp add: run_triggers_def fire_def serving_def begin_close_def settle_def
      finish_result cleanup_cases split: option.splits sum.splits)

lemma app_closed_is_teardown:
  "pw (run_triggers D [AppClosed] (serving w)) = snd (on_app_close w)
   \<and> exited (run_triggers D [AppClosed] (serving w)) = Some 0"
  by (simp add: run_triggers_def fire_def serving_def finish_result on_app_close_def teardown_result)

text \<open>
  When the application's \<open>close\<close> event arrives while \<open>handleClose\<close> awaits, the
  listener of the event runs \<open>teardown\<close>, and the effects are those of the undisturbed
  routine, in the same order.
\<close>

lemma close_request_then_app_closed:
  assumes "listening w" and "app (state w) = Some a"
  shows "trace (pw (run_triggers D [CloseRequest, AppClosed] (serving w)))
       = trace w @ SendJson 200 closing_body # closing_order (Some a)
     \<and> exited (run_triggers D [CloseRequest, AppClosed] (serving w)) = Some 0"
  using assms
  by (simp add: run_triggers_def fire_def serving_def sendJson_def begin_close_def
      finish_result closing_order_def)





end
